theory Spec2Isabelle
  imports Complex_Main "HOL-Library.Product_Lexorder"
begin

section \<open>Order lifecycle and rider matching of the food-delivery backend\<close>

text \<open>
  A shallow embedding of the route handlers of \<^verbatim>\<open>backend/src/routes/orders.js\<close> and
  \<^verbatim>\<open>backend/src/routes/riders.js\<close>. Each handler is a function from the persistent
  store (and the request) to a response and the store after the request.

  Conventions:
  \<^item> a JavaScript number is a \<open>real\<close> (exact arithmetic: the rounding of IEEE doubles is
    not part of the model; \<open>NaN\<close> is written out as \<open>None\<close> where \<open>parseFloat\<close> can
    produce it);
  \<^item> a \<open>Date\<close> is its epoch time in milliseconds, an \<open>int\<close>;
  \<^item> a nullable column is an \<open>option\<close>, \<open>None\<close> for \<open>null\<close>/\<open>undefined\<close>;
  \<^item> status and role are the strings the code compares;
  \<^item> an early \<^verbatim>\<open>return res.status(n).json(...)\<close> is \<open>Inl\<close> of an \<open>error\<close>, and an exception
    caught by the handler's \<^verbatim>\<open>catch\<close> is \<open>Inl InternalServerError\<close>;
  \<^item> a handler is the function the route registers last: the middleware before it
    (\<^verbatim>\<open>authenticateToken\<close>, \<^verbatim>\<open>authorizeRoles\<close>, \<^verbatim>\<open>validate\<close>) has run, so \<^verbatim>\<open>req.user\<close> is
    set and has a role the route admits.
\<close>

subsection \<open>JavaScript operators\<close>

text \<open>\<^verbatim>\<open>Math.round(x)\<close>: the integer nearest to \<open>x\<close>, ties towards \<open>+\<infinity>\<close>.\<close>

definition Math_round :: "real \<Rightarrow> real" where
  "Math_round x = of_int \<lfloor>x + 1 / 2\<rfloor>"

text \<open>\<^verbatim>\<open>x || d\<close> on a nullable number: \<open>null\<close> and \<open>0\<close> are falsy.\<close>

definition num_or :: "real option \<Rightarrow> real \<Rightarrow> real" where
  "num_or x d = (case x of None \<Rightarrow> d | Some v \<Rightarrow> if v = 0 then d else v)"

text \<open>\<^verbatim>\<open>!x\<close> on a nullable number.\<close>

definition num_falsy :: "real option \<Rightarrow> bool" where
  "num_falsy x = (case x of None \<Rightarrow> True | Some v \<Rightarrow> v = 0)"

text \<open>\<^verbatim>\<open>s || d\<close> on an optional string: \<open>undefined\<close> and the empty string are falsy.\<close>

definition str_or :: "string option \<Rightarrow> string \<Rightarrow> string" where
  "str_or x d = (case x of None \<Rightarrow> d | Some s \<Rightarrow> if s = [] then d else s)"

text \<open>Truthiness of a nullable string, as in \<^verbatim>\<open>if (order.riderId)\<close>.\<close>

definition str_truthy :: "string option \<Rightarrow> bool" where
  "str_truthy x = (case x of None \<Rightarrow> False | Some s \<Rightarrow> s \<noteq> [])"

subsection \<open>Data model\<close>

text \<open>\<^verbatim>\<open>req.user\<close>, as the authentication middleware attaches it.\<close>

record user =
  u_id :: string
  u_role :: string
  u_name :: string
  u_phone :: string

record restaurant =
  r_id :: string
  r_userId :: string
  r_status :: string
  r_isOpen :: bool
  r_deliveryFee :: "real option"
  r_minimumOrder :: real
  r_latitude :: "real option"
  r_longitude :: "real option"

record address =
  a_id :: string
  a_userId :: string

record menu_item =
  mi_id :: string
  mi_restaurantId :: string
  mi_isAvailable :: bool
  mi_price :: real

record rider =
  rd_id :: string
  rd_userId :: string
  rd_isAvailable :: bool

text \<open>An item of the request body of \<^verbatim>\<open>POST /orders\<close>.\<close>

record req_item =
  q_menuItemId :: string
  q_quantity :: real
  q_notes :: "string option"

text \<open>A line item as it is stored with the order: the price is the catalogue's at creation.\<close>

record order_item =
  it_menuItemId :: string
  it_quantity :: real
  it_price :: real
  it_notes :: "string option"

record order =
  o_id :: string
  o_orderNumber :: string
  o_customerId :: string
  o_restaurantId :: string
  o_addressId :: string
  o_paymentMethod :: string
  o_subtotal :: real
  o_deliveryFee :: real
  o_platformFee :: real
  o_taxes :: real
  o_total :: real
  o_specialInstructions :: "string option"
  o_estimatedTime :: real
  o_items :: "order_item list"
  o_status :: string
  o_riderId :: "string option"
  o_createdAt :: int
  o_confirmedAt :: "int option"
  o_preparingAt :: "int option"
  o_readyAt :: "int option"
  o_pickedUpAt :: "int option"
  o_deliveredAt :: "int option"
  o_cancelledAt :: "int option"
  o_actualTime :: "int option"
  o_cancellationReason :: "string option"

text \<open>
  A row of the tracking log. The handlers pass order, status and message; the timestamp
  is the store's.
\<close>

record tracking =
  t_orderId :: string
  t_status :: string
  t_message :: string
  t_timestamp :: int

text \<open>
  The persistent store, one list of rows per table, and the notifications published so
  far: \<^verbatim>\<open>io.to(room).emit(event, ...)\<close> is the pair \<open>(room, event)\<close>.
\<close>

record store =
  restaurants :: "restaurant list"
  addresses :: "address list"
  menuItems :: "menu_item list"
  riders :: "rider list"
  orders :: "order list"
  orderTracking :: "tracking list"
  emitted :: "(string \<times> string) list"

text \<open>
  The failure responses of the four handlers, each named after its message, with the
  HTTP status the handler sends.
\<close>

datatype error =
    RestaurantNotAvailable
  | InvalidDeliveryAddress
  | MenuItemsNotAvailable
  | BelowMinimumOrder
  | InvalidStatus
  | OrderNotFound
  | NotAuthorizedToUpdate
  | NotAuthorizedToCancel
  | CannotCancelAtThisStage
  | CannotCancelAfterFiveMinutes
  | RiderProfileNotFound
  | RiderNotAvailable
  | OrderNotReady
  | OrderAlreadyAccepted
  | InternalServerError

fun httpStatus :: "error \<Rightarrow> nat" where
  "httpStatus RestaurantNotAvailable = 400"
| "httpStatus InvalidDeliveryAddress = 400"
| "httpStatus MenuItemsNotAvailable = 400"
| "httpStatus BelowMinimumOrder = 400"
| "httpStatus InvalidStatus = 400"
| "httpStatus OrderNotFound = 404"
| "httpStatus NotAuthorizedToUpdate = 403"
| "httpStatus NotAuthorizedToCancel = 403"
| "httpStatus CannotCancelAtThisStage = 400"
| "httpStatus CannotCancelAfterFiveMinutes = 400"
| "httpStatus RiderProfileNotFound = 404"
| "httpStatus RiderNotAvailable = 400"
| "httpStatus OrderNotReady = 400"
| "httpStatus OrderAlreadyAccepted = 400"
| "httpStatus InternalServerError = 500"

subsection \<open>Store queries\<close>

text \<open>\<^verbatim>\<open>findUnique({ where: { id } })\<close> on each table; \<open>None\<close> is Prisma's \<open>null\<close>.\<close>

definition findRestaurant :: "store \<Rightarrow> string \<Rightarrow> restaurant option" where
  "findRestaurant s i = find (\<lambda>r. r_id r = i) (restaurants s)"

definition findAddress :: "store \<Rightarrow> string \<Rightarrow> address option" where
  "findAddress s i = find (\<lambda>a. a_id a = i) (addresses s)"

definition findOrder :: "store \<Rightarrow> string \<Rightarrow> order option" where
  "findOrder s i = find (\<lambda>ord. o_id ord = i) (orders s)"

text \<open>\<^verbatim>\<open>prisma.rider.findUnique({ where: { userId } })\<close>.\<close>

definition findRiderByUser :: "store \<Rightarrow> string \<Rightarrow> rider option" where
  "findRiderByUser s uid = find (\<lambda>r. rd_userId r = uid) (riders s)"

text \<open>\<^verbatim>\<open>prisma.order.update({ where: { id }, data })\<close>: the row with that id is replaced.\<close>

definition updateOrder :: "string \<Rightarrow> (order \<Rightarrow> order) \<Rightarrow> store \<Rightarrow> store" where
  "updateOrder i f s =
     s\<lparr>orders := map (\<lambda>ord. if o_id ord = i then f ord else ord) (orders s)\<rparr>"

text \<open>\<^verbatim>\<open>prisma.orderTracking.create\<close>: one row appended, stamped by the store with \<open>ts\<close>.\<close>

definition createTracking :: "string \<Rightarrow> string \<Rightarrow> string \<Rightarrow> int \<Rightarrow> store \<Rightarrow> store" where
  "createTracking oid st msg ts s =
     s\<lparr>orderTracking := orderTracking s @
        [\<lparr>t_orderId = oid, t_status = st, t_message = msg, t_timestamp = ts\<rparr>]\<rparr>"

definition emit :: "string \<Rightarrow> string \<Rightarrow> store \<Rightarrow> store" where
  "emit room event s = s\<lparr>emitted := emitted s @ [(room, event)]\<rparr>"

subsection \<open>Order totals\<close>

record totals =
  subtotal :: real
  deliveryFee :: real
  platformFee :: real
  taxes :: real
  total :: real

text \<open>
  \<^verbatim>\<open>calculateOrderTotals(items, restaurant)\<close>. The amounts are exact reals: where the
  code's doubles round (a price such as 12.99 has no exact double), the code's subtotal,
  fees and total can differ from these in the last digits, and a fee can round to the
  neighbouring integer. For integer prices and quantities the two agree.
\<close>

definition calculateOrderTotals :: "order_item list \<Rightarrow> restaurant \<Rightarrow> totals" where
  "calculateOrderTotals items rest =
     (let subtotal = foldl (\<lambda>sum item. sum + it_price item * it_quantity item) 0 items;
          deliveryFee = num_or (r_deliveryFee rest) 40;
          platformFee = Math_round (subtotal * 0.02);
          taxes = Math_round (subtotal * 0.05);
          total = subtotal + deliveryFee + platformFee + taxes
      in \<lparr>subtotal = subtotal, deliveryFee = deliveryFee, platformFee = platformFee,
          taxes = taxes, total = total\<rparr>)"

subsection \<open>Creating an order\<close>

text \<open>The body of \<^verbatim>\<open>POST /orders\<close> after validation.\<close>

record order_request =
  rq_restaurantId :: string
  rq_addressId :: string
  rq_items :: "req_item list"
  rq_paymentMethod :: string
  rq_specialInstructions :: "string option"

text \<open>
  What the environment supplies to a creation: the id the store generates for the row,
  the value of \<^verbatim>\<open>generateOrderNumber()\<close> (time and \<^verbatim>\<open>Math.random\<close>), the value of the
  expression for \<^verbatim>\<open>estimatedTime\<close>, and the store's clock for \<^verbatim>\<open>createdAt\<close>.
\<close>

record creation_env =
  ce_id :: string
  ce_orderNumber :: string
  ce_estimatedTime :: real
  ce_now :: int

text \<open>
  \<^verbatim>\<open>items.map(item => { const menuItem = menuItems.find(...); ... menuItem.price ... })\<close>:
  reading \<^verbatim>\<open>price\<close> of \<open>undefined\<close> throws, which is \<open>None\<close> here.
\<close>

fun prepareItems :: "menu_item list \<Rightarrow> req_item list \<Rightarrow> order_item list option" where
  "prepareItems ms [] = Some []"
| "prepareItems ms (q # qs) =
     (case find (\<lambda>mi. mi_id mi = q_menuItemId q) ms of
        None \<Rightarrow> None
      | Some mi \<Rightarrow>
          (case prepareItems ms qs of
             None \<Rightarrow> None
           | Some rest \<Rightarrow>
               Some (\<lparr>it_menuItemId = q_menuItemId q, it_quantity = q_quantity q,
                       it_price = mi_price mi, it_notes = q_notes q\<rparr> # rest)))"

text \<open>
  Modelled from the spec: the Prisma schema, which gives the defaults of the columns
  that \<^verbatim>\<open>prisma.order.create\<close> is not passed, is not among the sources; by the spec an
  order is created \<open>pending\<close>, with no rider and no lifecycle timestamp. The other
  fields of the row are the handler's \<^verbatim>\<open>data\<close>.
\<close>

definition newOrder ::
  "creation_env \<Rightarrow> user \<Rightarrow> order_request \<Rightarrow> order_item list \<Rightarrow> totals \<Rightarrow> order" where
  "newOrder env u rq items t =
     \<lparr>o_id = ce_id env, o_orderNumber = ce_orderNumber env, o_customerId = u_id u,
      o_restaurantId = rq_restaurantId rq, o_addressId = rq_addressId rq,
      o_paymentMethod = rq_paymentMethod rq,
      o_subtotal = subtotal t, o_deliveryFee = deliveryFee t, o_platformFee = platformFee t,
      o_taxes = taxes t, o_total = total t,
      o_specialInstructions = rq_specialInstructions rq,
      o_estimatedTime = ce_estimatedTime env, o_items = items,
      o_status = ''pending'', o_riderId = None, o_createdAt = ce_now env,
      o_confirmedAt = None, o_preparingAt = None, o_readyAt = None, o_pickedUpAt = None,
      o_deliveredAt = None, o_cancelledAt = None, o_actualTime = None,
      o_cancellationReason = None\<rparr>"

text \<open>The handler of \<^verbatim>\<open>POST /orders\<close>; \<open>ts\<close> stamps the tracking row.\<close>

definition createOrder ::
  "creation_env \<Rightarrow> int \<Rightarrow> user \<Rightarrow> order_request \<Rightarrow> store \<Rightarrow> (error + order) \<times> store" where
  "createOrder env ts u rq s =
     (case findRestaurant s (rq_restaurantId rq) of
        None \<Rightarrow> (Inl RestaurantNotAvailable, s)
      | Some rest \<Rightarrow>
          if r_status rest \<noteq> ''active'' \<or> \<not> r_isOpen rest
          then (Inl RestaurantNotAvailable, s)
          else
            (case findAddress s (rq_addressId rq) of
               None \<Rightarrow> (Inl InvalidDeliveryAddress, s)
             | Some addr \<Rightarrow>
                 if a_userId addr \<noteq> u_id u then (Inl InvalidDeliveryAddress, s)
                 else
                   (let menuItemIds = map q_menuItemId (rq_items rq);
                        found = filter (\<lambda>mi. mi_id mi \<in> set menuItemIds
                                   \<and> mi_restaurantId mi = rq_restaurantId rq
                                   \<and> mi_isAvailable mi) (menuItems s)
                    in if length found \<noteq> length (rq_items rq)
                       then (Inl MenuItemsNotAvailable, s)
                       else
                         (case prepareItems found (rq_items rq) of
                            None \<Rightarrow> (Inl InternalServerError, s)
                          | Some orderItems \<Rightarrow>
                              (let t = calculateOrderTotals orderItems rest
                               in if subtotal t < r_minimumOrder rest
                                  then (Inl BelowMinimumOrder, s)
                                  else
                                    (let ord = newOrder env u rq orderItems t;
                                         s1 = s\<lparr>orders := orders s @ [ord]\<rparr>;
                                         s2 = createTracking (o_id ord) ''pending''
                                                ''Order placed successfully'' ts s1;
                                         s3 = emit (''restaurant_'' @ rq_restaurantId rq)
                                                ''new_order'' s2
                                     in (Inr ord, s3)))))))"

subsection \<open>Updating the status of an order\<close>

definition validStatuses :: "string list" where
  "validStatuses =
     [''pending'', ''confirmed'', ''preparing'', ''ready'', ''picked_up'', ''delivered'',
      ''cancelled'']"

text \<open>
  \<^verbatim>\<open>prisma.order.update\<close> returns the updated row and throws when the row does not
  exist, which is \<open>None\<close> here.
\<close>

definition orderUpdate :: "string \<Rightarrow> (order \<Rightarrow> order) \<Rightarrow> store \<Rightarrow> (order \<times> store) option" where
  "orderUpdate i f s =
     (case findOrder s i of
        None \<Rightarrow> None
      | Some row \<Rightarrow> Some (f row, updateOrder i f s))"

text \<open>
  The authorization chain of \<^verbatim>\<open>PATCH /orders/:id/status\<close>. The order is read with its
  restaurant; reading \<^verbatim>\<open>userId\<close> of a missing restaurant throws.
\<close>

definition isAuthorized :: "user \<Rightarrow> order \<Rightarrow> restaurant option \<Rightarrow> string \<Rightarrow> error + bool" where
  "isAuthorized u ord rest st =
     (if u_role u = ''restaurant'' then
        (case rest of
           None \<Rightarrow> Inl InternalServerError
         | Some r \<Rightarrow>
             if r_userId r = u_id u
             then Inr (st \<in> set [''confirmed'', ''preparing'', ''ready'', ''cancelled''])
             else Inr False)
      else if u_role u = ''rider'' \<and> o_riderId ord = Some (u_id u)
      then Inr (st \<in> set [''picked_up'', ''delivered''])
      else if u_role u = ''admin'' then Inr True
      else Inr False)"

text \<open>
  \<^verbatim>\<open>updateData\<close>: the status, and the fields the \<^verbatim>\<open>switch\<close> adds for it, written over the
  row. \<open>created\<close> is \<^verbatim>\<open>order.createdAt\<close> of the order as the handler read it.
\<close>

definition updateData :: "string \<Rightarrow> int \<Rightarrow> int \<Rightarrow> order \<Rightarrow> order" where
  "updateData st now created row =
     (let row1 = row\<lparr>o_status := st\<rparr>
      in if st = ''confirmed'' then row1\<lparr>o_confirmedAt := Some now\<rparr>
         else if st = ''preparing'' then row1\<lparr>o_preparingAt := Some now\<rparr>
         else if st = ''ready'' then row1\<lparr>o_readyAt := Some now\<rparr>
         else if st = ''picked_up'' then row1\<lparr>o_pickedUpAt := Some now\<rparr>
         else if st = ''delivered''
         then row1\<lparr>o_deliveredAt := Some now,
                   o_actualTime := Some ((now - created) div (1000 * 60))\<rparr>
         else if st = ''cancelled'' then row1\<lparr>o_cancelledAt := Some now\<rparr>
         else row1)"

text \<open>
  The handler of \<^verbatim>\<open>PATCH /orders/:id/status\<close>: \<open>now\<close> is \<^verbatim>\<open>new Date()\<close>, \<open>ts\<close> stamps the
  tracking row, \<open>st\<close> and \<open>msg\<close> are \<^verbatim>\<open>req.body.status\<close> and \<^verbatim>\<open>req.body.message\<close>.
\<close>

definition updateOrderStatus ::
  "int \<Rightarrow> int \<Rightarrow> user \<Rightarrow> string \<Rightarrow> string \<Rightarrow> string option \<Rightarrow> store
     \<Rightarrow> (error + order) \<times> store" where
  "updateOrderStatus now ts u i st msg s =
     (if st \<notin> set validStatuses then (Inl InvalidStatus, s)
      else
        (case findOrder s i of
           None \<Rightarrow> (Inl OrderNotFound, s)
         | Some ord \<Rightarrow>
             (case isAuthorized u ord (findRestaurant s (o_restaurantId ord)) st of
                Inl e \<Rightarrow> (Inl e, s)
              | Inr ok \<Rightarrow>
                  if \<not> ok then (Inl NotAuthorizedToUpdate, s)
                  else
                    (case orderUpdate i (updateData st now (o_createdAt ord)) s of
                       None \<Rightarrow> (Inl InternalServerError, s)
                     | Some (updatedOrder, s1) \<Rightarrow>
                         (let s2 = createTracking i st (str_or msg (''Order '' @ st)) ts s1;
                              s3 = emit (''user_'' @ o_customerId ord)
                                     ''order_status_update'' s2;
                              s4 = emit (''order_'' @ i) ''status_update'' s3
                          in (Inr updatedOrder, s4))))))"

subsection \<open>Cancelling an order\<close>

text \<open>
  The handler of \<^verbatim>\<open>PATCH /orders/:id/cancel\<close>. It reads the clock twice: \<open>now\<close> for the
  time limit, \<open>now2\<close> for \<^verbatim>\<open>cancelledAt\<close>. A \<^verbatim>\<open>reason\<close> that is \<open>undefined\<close> leaves the
  column as it is.
\<close>

definition cancelOrder ::
  "int \<Rightarrow> int \<Rightarrow> int \<Rightarrow> user \<Rightarrow> string \<Rightarrow> string option \<Rightarrow> store \<Rightarrow> (error + order) \<times> store" where
  "cancelOrder now now2 ts u i reason s =
     (case findOrder s i of
        None \<Rightarrow> (Inl OrderNotFound, s)
      | Some ord \<Rightarrow>
          if o_customerId ord \<noteq> u_id u then (Inl NotAuthorizedToCancel, s)
          else if o_status ord \<notin> set [''pending'', ''confirmed'']
          then (Inl CannotCancelAtThisStage, s)
          else
            (let timeDiff = real_of_int (now - o_createdAt ord) / (1000 * 60)
             in if timeDiff > 5 \<and> o_status ord = ''confirmed''
                then (Inl CannotCancelAfterFiveMinutes, s)
                else
                  (case orderUpdate i
                          (\<lambda>row. row\<lparr>o_status := ''cancelled'', o_cancelledAt := Some now2,
                                      o_cancellationReason :=
                                        (case reason of
                                           None \<Rightarrow> o_cancellationReason row
                                         | Some r \<Rightarrow> Some r)\<rparr>) s of
                     None \<Rightarrow> (Inl InternalServerError, s)
                   | Some (updatedOrder, s1) \<Rightarrow>
                       (let s2 = createTracking i ''cancelled''
                                   (''Order cancelled by customer. Reason: ''
                                      @ str_or reason ''No reason provided'') ts s1;
                            s3 = emit (''restaurant_'' @ o_restaurantId ord)
                                   ''order_cancelled'' s2
                        in (Inr updatedOrder, s3)))))"

subsection \<open>Accepting an order\<close>

text \<open>
  The handler of \<^verbatim>\<open>POST /riders/accept-order/:orderId\<close>, in the two parts its
  \<^verbatim>\<open>await\<close>s separate: the reads with their checks, and the writes.
\<close>

definition acceptChecks :: "user \<Rightarrow> string \<Rightarrow> store \<Rightarrow> error + (rider \<times> order)" where
  "acceptChecks u orderId s =
     (case findRiderByUser s (u_id u) of
        None \<Rightarrow> Inl RiderProfileNotFound
      | Some rider \<Rightarrow>
          if \<not> rd_isAvailable rider then Inl RiderNotAvailable
          else
            (case findOrder s orderId of
               None \<Rightarrow> Inl OrderNotFound
             | Some ord \<Rightarrow>
                 if o_status ord \<noteq> ''ready'' then Inl OrderNotReady
                 else if str_truthy (o_riderId ord) then Inl OrderAlreadyAccepted
                 else Inr (rider, ord)))"

text \<open>
  \<^verbatim>\<open>prisma.order.update({ where: { id: orderId }, data: { riderId: rider.id } })\<close>, the
  tracking row and the two notifications.
\<close>

definition acceptWrites ::
  "int \<Rightarrow> user \<Rightarrow> string \<Rightarrow> rider \<Rightarrow> order \<Rightarrow> store \<Rightarrow> (error + order) \<times> store" where
  "acceptWrites ts u orderId rider ord s =
     (case orderUpdate orderId (\<lambda>row. row\<lparr>o_riderId := Some (rd_id rider)\<rparr>) s of
        None \<Rightarrow> (Inl InternalServerError, s)
      | Some (updatedOrder, s1) \<Rightarrow>
          (let s2 = createTracking orderId ''ready''
                      (''Order accepted by rider '' @ u_name u) ts s1;
               s3 = emit (''user_'' @ o_customerId ord) ''rider_assigned'' s2;
               s4 = emit (''restaurant_'' @ o_restaurantId ord) ''rider_assigned'' s3
           in (Inr updatedOrder, s4)))"

definition acceptOrder :: "int \<Rightarrow> user \<Rightarrow> string \<Rightarrow> store \<Rightarrow> (error + order) \<times> store" where
  "acceptOrder ts u orderId s =
     (case acceptChecks u orderId s of
        Inl e \<Rightarrow> (Inl e, s)
      | Inr (rider, ord) \<Rightarrow> acceptWrites ts u orderId rider ord s)"

subsection \<open>Listing the orders available to a rider\<close>

text \<open>
  A parameter of the query string as the handler uses it: \<open>Missing\<close> is \<open>undefined\<close>,
  \<open>Empty\<close> the empty string, \<open>NotNumeric\<close> a non-empty string that \<^verbatim>\<open>parseFloat\<close> reads as
  \<open>NaN\<close>, and \<open>Numeric r\<close> a non-empty string that \<^verbatim>\<open>parseFloat\<close> reads as \<open>r\<close>.
\<close>

datatype query = Missing | Empty | NotNumeric | Numeric real

definition query_truthy :: "query \<Rightarrow> bool" where
  "query_truthy q = (case q of Missing \<Rightarrow> False | Empty \<Rightarrow> False | _ \<Rightarrow> True)"

definition parseFloat :: "query \<Rightarrow> real option" where
  "parseFloat q = (case q of Numeric r \<Rightarrow> Some r | _ \<Rightarrow> None)"

text \<open>\<^verbatim>\<open>const { ..., radius = 10 } = req.query\<close> followed by \<^verbatim>\<open>parseFloat(radius)\<close>.\<close>

definition parseRadius :: "query \<Rightarrow> real option" where
  "parseRadius q = (case q of Missing \<Rightarrow> Some 10 | _ \<Rightarrow> parseFloat q)"

text \<open>\<^verbatim>\<open>Math.sqrt\<close> is \<open>NaN\<close> below zero.\<close>

definition Math_sqrt :: "real \<Rightarrow> real option" where
  "Math_sqrt x = (if x < 0 then None else Some (sqrt x))"

text \<open>\<^verbatim>\<open>Math.atan2(y, x)\<close>: the angle of the point \<open>(x, y)\<close>.\<close>

definition Math_atan2 :: "real \<Rightarrow> real \<Rightarrow> real" where
  "Math_atan2 y x =
     (if 0 < x then arctan (y / x)
      else if x < 0 then (if 0 \<le> y then arctan (y / x) + pi else arctan (y / x) - pi)
      else if 0 < y then pi / 2
      else if y < 0 then - (pi / 2)
      else 0)"

text \<open>
  The haversine distance the filter computes, in kilometres; \<open>None\<close> is \<open>NaN\<close>. The
  value is the exact real: the code's doubles can differ from it in the last digits,
  and for points that are almost antipodal the code's \<open>a\<close> can exceed 1 by rounding,
  which makes its distance \<open>NaN\<close> where this one is close to \<open>6371 * pi\<close>.
\<close>

definition distance :: "real \<Rightarrow> real \<Rightarrow> real \<Rightarrow> real \<Rightarrow> real option" where
  "distance riderLat riderLng lat lng =
     (let R = 6371;
          dLat = (lat - riderLat) * pi / 180;
          dLng = (lng - riderLng) * pi / 180;
          a = sin (dLat / 2) * sin (dLat / 2) +
              cos (riderLat * pi / 180) * cos (lat * pi / 180) *
              sin (dLng / 2) * sin (dLng / 2)
      in case Math_sqrt a of
           None \<Rightarrow> None
         | Some p \<Rightarrow>
             (case Math_sqrt (1 - a) of
                None \<Rightarrow> None
              | Some q \<Rightarrow> Some (R * (2 * Math_atan2 p q))))"

text \<open>
  The callback of \<^verbatim>\<open>orders.filter\<close>, on the restaurant joined to the order. A comparison
  with \<open>NaN\<close> is false.
\<close>

definition withinRadius :: "real option \<Rightarrow> real option \<Rightarrow> real option \<Rightarrow> restaurant \<Rightarrow> bool" where
  "withinRadius riderLat riderLng maxRadius rest =
     (if num_falsy (r_latitude rest) \<or> num_falsy (r_longitude rest) then True
      else
        (case (riderLat, riderLng, maxRadius, r_latitude rest, r_longitude rest) of
           (Some la, Some lo, Some m, Some rla, Some rlo) \<Rightarrow>
             (case distance la lo rla rlo of None \<Rightarrow> False | Some d \<Rightarrow> d \<le> m)
         | _ \<Rightarrow> False))"

text \<open>
  \<^verbatim>\<open>orderBy: { readyAt: 'asc' }\<close>: ascending, rows without \<^verbatim>\<open>readyAt\<close> last, rows with
  equal keys in the order of the table.
\<close>

definition readyKey :: "order \<Rightarrow> nat \<times> int" where
  "readyKey ord = (case o_readyAt ord of None \<Rightarrow> (1, 0) | Some t \<Rightarrow> (0, t))"

definition isReadyUnassigned :: "order \<Rightarrow> bool" where
  "isReadyUnassigned ord = (o_status ord = ''ready'' \<and> o_riderId ord = None)"

text \<open>
  \<^verbatim>\<open>prisma.order.findMany({ where: { status: 'ready', riderId: null },
  orderBy: { readyAt: 'asc' }, take: 20 })\<close>.
\<close>

definition findReadyOrders :: "store \<Rightarrow> order list" where
  "findReadyOrders s = take 20 (sort_key readyKey (filter isReadyUnassigned (orders s)))"

definition keepOrder :: "store \<Rightarrow> real option \<Rightarrow> real option \<Rightarrow> real option \<Rightarrow> order \<Rightarrow> bool" where
  "keepOrder s riderLat riderLng maxRadius ord =
     (case findRestaurant s (o_restaurantId ord) of
        None \<Rightarrow> False
      | Some rest \<Rightarrow> withinRadius riderLat riderLng maxRadius rest)"

text \<open>
  The handler of \<^verbatim>\<open>GET /riders/available-orders\<close>. Reading the coordinates of a missing
  restaurant throws.
\<close>

definition listAvailableOrders ::
  "user \<Rightarrow> query \<Rightarrow> query \<Rightarrow> query \<Rightarrow> store \<Rightarrow> error + order list" where
  "listAvailableOrders u latitude longitude radius s =
     (case findRiderByUser s (u_id u) of
        None \<Rightarrow> Inl RiderProfileNotFound
      | Some rider \<Rightarrow>
          if \<not> rd_isAvailable rider then Inl RiderNotAvailable
          else
            (let found = findReadyOrders s
             in if query_truthy latitude \<and> query_truthy longitude
                then
                  (if list_ex (\<lambda>ord. findRestaurant s (o_restaurantId ord) = None) found
                   then Inl InternalServerError
                   else Inr (filter (keepOrder s (parseFloat latitude) (parseFloat longitude)
                                       (parseRadius radius)) found))
                else Inr found))"

subsection \<open>Sequences of lifecycle operations\<close>

text \<open>
  The four lifecycle operations as requests, and a history of requests run one after the
  other, each paired with the store's clock at the moment its tracking row is written.
\<close>

datatype operation =
    CreateOrder creation_env user order_request
  | UpdateOrderStatus int user string string "string option"
  | CancelOrder int int user string "string option"
  | AcceptOrder user string

fun perform :: "int \<Rightarrow> operation \<Rightarrow> store \<Rightarrow> (error + order) \<times> store" where
  "perform ts (CreateOrder env u rq) s = createOrder env ts u rq s"
| "perform ts (UpdateOrderStatus now u i st msg) s = updateOrderStatus now ts u i st msg s"
| "perform ts (CancelOrder now now2 u i reason) s = cancelOrder now now2 ts u i reason s"
| "perform ts (AcceptOrder u orderId) s = acceptOrder ts u orderId s"

fun run :: "(int \<times> operation) list \<Rightarrow> store \<Rightarrow> store" where
  "run [] s = s"
| "run ((ts, opn) # rest) s = run rest (snd (perform ts opn s))"

text \<open>The timestamps of the tracking rows of one order, in the order of the log.\<close>

definition trackingTimes :: "store \<Rightarrow> string \<Rightarrow> int list" where
  "trackingTimes s oid = map t_timestamp (filter (\<lambda>t. t_orderId t = oid) (orderTracking s))"

text \<open>
  The clock readings of the operations of a history that succeed on the order \<open>oid\<close>, in
  the order of the history; the reading paired with a refused request is left out.
\<close>

fun orderStamps :: "string \<Rightarrow> (int \<times> operation) list \<Rightarrow> store \<Rightarrow> int list" where
  "orderStamps oid [] s = []"
| "orderStamps oid ((ts, opn) # rest) s =
     (case fst (perform ts opn s) of
        Inl e \<Rightarrow> []
      | Inr ord \<Rightarrow> if o_id ord = oid then [ts] else [])
     @ orderStamps oid rest (snd (perform ts opn s))"

subsection \<open>Sample data\<close>

text \<open>
  A small store used to run the handlers on concrete requests: one restaurant, its
  owner, a customer with an address and an order, and two riders whose profile ids
  differ from their user ids.
\<close>

definition sampleRestaurant :: restaurant where
  "sampleRestaurant =
     \<lparr>r_id = ''r1'', r_userId = ''u2'', r_status = ''active'', r_isOpen = True,
      r_deliveryFee = Some 40, r_minimumOrder = 100,
      r_latitude = Some 90, r_longitude = Some 5\<rparr>"

definition sampleItems :: "order_item list" where
  "sampleItems =
     [\<lparr>it_menuItemId = ''m1'', it_quantity = 2, it_price = 100, it_notes = None\<rparr>,
      \<lparr>it_menuItemId = ''m2'', it_quantity = 1, it_price = 50, it_notes = None\<rparr>]"

definition sampleOrder :: order where
  "sampleOrder =
     \<lparr>o_id = ''o1'', o_orderNumber = ''FF000001001'', o_customerId = ''u1'',
      o_restaurantId = ''r1'', o_addressId = ''a1'', o_paymentMethod = ''cod'',
      o_subtotal = 250, o_deliveryFee = 40, o_platformFee = 5, o_taxes = 13, o_total = 308,
      o_specialInstructions = None, o_estimatedTime = 40, o_items = sampleItems,
      o_status = ''pending'', o_riderId = None, o_createdAt = 0,
      o_confirmedAt = None, o_preparingAt = None, o_readyAt = None, o_pickedUpAt = None,
      o_deliveredAt = None, o_cancelledAt = None, o_actualTime = None,
      o_cancellationReason = None\<rparr>"

definition customerUser :: user where
  "customerUser = \<lparr>u_id = ''u1'', u_role = ''customer'', u_name = ''Asha'', u_phone = ''1''\<rparr>"

definition ownerUser :: user where
  "ownerUser = \<lparr>u_id = ''u2'', u_role = ''restaurant'', u_name = ''Biryani'', u_phone = ''2''\<rparr>"

definition riderUser :: user where
  "riderUser = \<lparr>u_id = ''u3'', u_role = ''rider'', u_name = ''Ravi'', u_phone = ''3''\<rparr>"

definition riderUser2 :: user where
  "riderUser2 = \<lparr>u_id = ''u4'', u_role = ''rider'', u_name = ''Sita'', u_phone = ''4''\<rparr>"

definition adminUser :: user where
  "adminUser = \<lparr>u_id = ''u9'', u_role = ''admin'', u_name = ''Root'', u_phone = ''9''\<rparr>"

definition sampleRider :: rider where
  "sampleRider = \<lparr>rd_id = ''p3'', rd_userId = ''u3'', rd_isAvailable = True\<rparr>"

definition sampleRider2 :: rider where
  "sampleRider2 = \<lparr>rd_id = ''p4'', rd_userId = ''u4'', rd_isAvailable = True\<rparr>"

text \<open>The sample store holding the one order \<open>ord\<close>.\<close>

definition sampleStore :: "order \<Rightarrow> store" where
  "sampleStore ord =
     \<lparr>restaurants = [sampleRestaurant],
      addresses = [\<lparr>a_id = ''a1'', a_userId = ''u1''\<rparr>],
      menuItems =
        [\<lparr>mi_id = ''m1'', mi_restaurantId = ''r1'', mi_isAvailable = True, mi_price = 100\<rparr>,
         \<lparr>mi_id = ''m2'', mi_restaurantId = ''r1'', mi_isAvailable = True, mi_price = 50\<rparr>],
      riders = [sampleRider, sampleRider2],
      orders = [ord],
      orderTracking = [],
      emitted = []\<rparr>"

text \<open>
  A request for a new order of the two sample items, and a history on the sample store:
  the order is created, marked \<open>ready\<close> by the restaurant owner and accepted by a rider,
  and the customer cancels the older order; \<open>t1\<close> to \<open>t4\<close> are the store's clock at
  the four tracking rows.
\<close>

definition sampleRequest :: order_request where
  "sampleRequest =
     \<lparr>rq_restaurantId = ''r1'', rq_addressId = ''a1'',
      rq_items = [\<lparr>q_menuItemId = ''m1'', q_quantity = 2, q_notes = None\<rparr>,
                  \<lparr>q_menuItemId = ''m2'', q_quantity = 1, q_notes = None\<rparr>],
      rq_paymentMethod = ''cod'', rq_specialInstructions = None\<rparr>"

definition sampleEnv :: creation_env where
  "sampleEnv = \<lparr>ce_id = ''o2'', ce_orderNumber = ''FF000002002'', ce_estimatedTime = 40,
                ce_now = 1\<rparr>"

definition sampleHistory :: "int \<Rightarrow> int \<Rightarrow> int \<Rightarrow> int \<Rightarrow> (int \<times> operation) list" where
  "sampleHistory t1 t2 t3 t4 =
     [(t1, CreateOrder sampleEnv customerUser sampleRequest),
      (t2, UpdateOrderStatus t2 ownerUser ''o2'' ''ready'' None),
      (t3, AcceptOrder riderUser ''o2''),
      (t4, CancelOrder t4 t4 customerUser ''o1'' None)]"

text \<open>
  A history with refused requests between the successful ones: the rider's first attempt
  (at clock 5) comes before the order is \<open>ready\<close> and is refused, and the customer
  cancels the older order at clock 9.
\<close>

definition refusedHistory :: "(int \<times> operation) list" where
  "refusedHistory =
     [(1, CreateOrder sampleEnv customerUser sampleRequest),
      (5, AcceptOrder riderUser ''o2''),
      (2, UpdateOrderStatus 2 ownerUser ''o2'' ''ready'' None),
      (9, CancelOrder 9 9 customerUser ''o1'' None),
      (3, AcceptOrder riderUser ''o2'')]"

text \<open>
  A store with twenty-one ready, unassigned orders. The first row of the table is the
  order that became ready last, of the sample restaurant at the north pole; the twenty
  that became ready before it are of a restaurant at the south pole.
\<close>

definition farRestaurant :: restaurant where
  "farRestaurant = sampleRestaurant\<lparr>r_id := ''r2'', r_latitude := Some (- 90)\<rparr>"

definition readyOrder :: "nat \<Rightarrow> string \<Rightarrow> order" where
  "readyOrder n rid =
     sampleOrder\<lparr>o_id := ''q'' @ replicate n CHR ''x'', o_restaurantId := rid,
                 o_status := ''ready'', o_readyAt := Some (int n)\<rparr>"

definition crowdedStore :: store where
  "crowdedStore =
     (sampleStore sampleOrder)
       \<lparr>restaurants := [sampleRestaurant, farRestaurant],
        orders := readyOrder 20 ''r1'' # map (\<lambda>n. readyOrder n ''r2'') [0..<20]\<rparr>"

text \<open>
  A store whose table is not in \<open>readyAt\<close> order and holds, besides three ready,
  unassigned orders of the two restaurants, a \<open>pending\<close> order and a \<open>ready\<close> order
  that has a rider.
\<close>

definition mixedStore :: store where
  "mixedStore =
     (sampleStore sampleOrder)
       \<lparr>restaurants := [sampleRestaurant, farRestaurant],
        orders := [readyOrder 2 ''r1'', sampleOrder, readyOrder 1 ''r2'', readyOrder 0 ''r1'',
                   (readyOrder 3 ''r1'')\<lparr>o_riderId := Some ''p4''\<rparr>]\<rparr>"

section \<open>Properties\<close>

subsection \<open>Reading and writing an order row\<close>

lemma findOrder_id: "findOrder s i = Some ord \<Longrightarrow> o_id ord = i"
  by (auto simp: findOrder_def find_Some_iff)

lemma find_map_update:
  assumes "\<And>row. o_id (f row) = o_id row"
  shows "find (\<lambda>ord. o_id ord = j) (map (\<lambda>ord. if o_id ord = i then f ord else ord) xs) =
         map_option (\<lambda>ord. if o_id ord = i then f ord else ord) (find (\<lambda>ord. o_id ord = j) xs)"
  using assms by (induction xs) auto

lemma findOrder_updateOrder:
  assumes "\<And>row. o_id (f row) = o_id row"
  shows "findOrder (updateOrder i f s) j =
         map_option (\<lambda>ord. if o_id ord = i then f ord else ord) (findOrder s j)"
  using find_map_update[OF assms] by (simp add: findOrder_def updateOrder_def)

lemma orderUpdate_found:
  "findOrder s i = Some ord \<Longrightarrow> orderUpdate i f s = Some (f ord, updateOrder i f s)"
  by (simp add: orderUpdate_def)

lemma updateOrder_frame [simp]:
  "orderTracking (updateOrder i f s) = orderTracking s"
  "emitted (updateOrder i f s) = emitted s"
  "restaurants (updateOrder i f s) = restaurants s"
  "riders (updateOrder i f s) = riders s"
  by (simp_all add: updateOrder_def)

lemmas sample_defs = sampleStore_def sampleOrder_def sampleRestaurant_def sampleRider_def
  sampleRider2_def customerUser_def ownerUser_def riderUser_def riderUser2_def adminUser_def

lemmas handler_defs = createOrder_def updateOrderStatus_def cancelOrder_def acceptOrder_def
  acceptChecks_def acceptWrites_def orderUpdate_def updateOrder_def updateData_def
  isAuthorized_def validStatuses_def createTracking_def emit_def findOrder_def
  findRestaurant_def findAddress_def findRiderByUser_def calculateOrderTotals_def newOrder_def
  num_or_def str_or_def str_truthy_def Math_round_def Let_def

subsection \<open>Cancellation by the customer\<close>

text \<open>
  Claim C6. When the caller is the order's customer, \<open>cancelOrder\<close> succeeds on a
  \<open>pending\<close> order whatever the time elapsed since creation, and on a \<open>confirmed\<close> order
  when at most five minutes (300000 ms) have elapsed; on success the stored order has status
  \<open>cancelled\<close> and its cancellation timestamp is set. A \<open>confirmed\<close> order past five
  minutes is refused, and so is an order in any other status; both refusals are HTTP 400
  (the spec's InvalidState) and leave the store as it was.
\<close>

theorem cancelOrder_window:
  assumes found: "findOrder s i = Some ord"
      and mine: "o_customerId ord = u_id u"
  shows "(o_status ord = ''pending'' \<or>
          o_status ord = ''confirmed'' \<and> now - o_createdAt ord \<le> 5 * 60 * 1000
          \<longrightarrow> (\<exists>ord' s'. cancelOrder now now2 ts u i reason s = (Inr ord', s')
                 \<and> findOrder s' i = Some ord'
                 \<and> o_status ord' = ''cancelled'' \<and> o_cancelledAt ord' = Some now2))
       \<and> (o_status ord = ''confirmed'' \<and> 5 * 60 * 1000 < now - o_createdAt ord
          \<longrightarrow> cancelOrder now now2 ts u i reason s = (Inl CannotCancelAfterFiveMinutes, s))
       \<and> (o_status ord \<noteq> ''pending'' \<and> o_status ord \<noteq> ''confirmed''
          \<longrightarrow> cancelOrder now now2 ts u i reason s = (Inl CannotCancelAtThisStage, s))"
proof (intro conjI impI)
  let ?f = "\<lambda>row. row\<lparr>o_status := ''cancelled'', o_cancelledAt := Some now2,
                o_cancellationReason :=
                  (case reason of None \<Rightarrow> o_cancellationReason row | Some r \<Rightarrow> Some r)\<rparr>"
  assume ok: "o_status ord = ''pending'' \<or>
          o_status ord = ''confirmed'' \<and> now - o_createdAt ord \<le> 5 * 60 * 1000"
  have idem: "o_id ord = i" using found by (rule findOrder_id)
  from ok have pass: "\<not> (real_of_int (now - o_createdAt ord) / (1000 * 60) > 5
                     \<and> o_status ord = ''confirmed'')"
    by auto
  from ok have stage: "o_status ord \<in> set [''pending'', ''confirmed'']" by auto
  have upd: "orderUpdate i ?f s = Some (?f ord, updateOrder i ?f s)"
    using found by (rule orderUpdate_found)
  have look: "findOrder (updateOrder i ?f s) i = Some (?f ord)"
    using found idem by (simp add: findOrder_updateOrder)
  show "\<exists>ord' s'. cancelOrder now now2 ts u i reason s = (Inr ord', s')
          \<and> findOrder s' i = Some ord'
          \<and> o_status ord' = ''cancelled'' \<and> o_cancelledAt ord' = Some now2"
    using found mine stage pass upd look
    by (simp add: cancelOrder_def Let_def createTracking_def emit_def findOrder_def del: set_simps)
next
  assume "o_status ord = ''confirmed'' \<and> 5 * 60 * 1000 < now - o_createdAt ord"
  then show "cancelOrder now now2 ts u i reason s = (Inl CannotCancelAfterFiveMinutes, s)"
    using found mine by (simp add: cancelOrder_def Let_def)
next
  assume "o_status ord \<noteq> ''pending'' \<and> o_status ord \<noteq> ''confirmed''"
  then show "cancelOrder now now2 ts u i reason s = (Inl CannotCancelAtThisStage, s)"
    using found mine by (simp add: cancelOrder_def)
qed

text \<open>
  The sample order, confirmed and created at time 0: cancelled by its customer at four
  minutes it is cancelled, at six minutes it is refused; a \<open>ready\<close> order is refused.
\<close>

theorem cancelOrder_window_witness:
  "findOrder (sampleStore (sampleOrder\<lparr>o_status := ''confirmed''\<rparr>)) ''o1''
     = Some (sampleOrder\<lparr>o_status := ''confirmed''\<rparr>)
   \<and> o_customerId (sampleOrder\<lparr>o_status := ''confirmed''\<rparr>) = u_id customerUser
   \<and> (\<exists>ord' s'. cancelOrder 240000 240001 240002 customerUser ''o1'' None
                    (sampleStore (sampleOrder\<lparr>o_status := ''confirmed''\<rparr>)) = (Inr ord', s')
         \<and> findOrder s' ''o1'' = Some ord'
         \<and> o_status ord' = ''cancelled'' \<and> o_cancelledAt ord' = Some 240001)
   \<and> cancelOrder 360000 360001 360002 customerUser ''o1'' None
        (sampleStore (sampleOrder\<lparr>o_status := ''confirmed''\<rparr>))
       = (Inl CannotCancelAfterFiveMinutes, sampleStore (sampleOrder\<lparr>o_status := ''confirmed''\<rparr>))
   \<and> cancelOrder 360000 360001 360002 customerUser ''o1'' None
        (sampleStore (sampleOrder\<lparr>o_status := ''ready''\<rparr>))
       = (Inl CannotCancelAtThisStage, sampleStore (sampleOrder\<lparr>o_status := ''ready''\<rparr>))"
proof -
  let ?c = "sampleOrder\<lparr>o_status := ''confirmed''\<rparr>"
  let ?r = "sampleOrder\<lparr>o_status := ''ready''\<rparr>"
  have f1: "findOrder (sampleStore ?c) ''o1'' = Some ?c"
    by (simp add: findOrder_def sample_defs)
  have f2: "findOrder (sampleStore ?r) ''o1'' = Some ?r"
    by (simp add: findOrder_def sample_defs)
  have m1: "o_customerId ?c = u_id customerUser" by (simp add: sample_defs)
  have m2: "o_customerId ?r = u_id customerUser" by (simp add: sample_defs)
  have st: "o_status ?c = ''confirmed''" "o_createdAt ?c = 0" "o_status ?r = ''ready''"
    by (simp_all add: sample_defs)
  show ?thesis
    using cancelOrder_window [OF f1 m1, of 240000 240001 240002 None]
          cancelOrder_window [OF f1 m1, of 360000 360001 360002 None]
          cancelOrder_window [OF f2 m2, of 360000 360001 360002 None]
          f1 m1 st
    by simp
qed

subsection \<open>Preconditions of accepting an order\<close>

text \<open>
  Claim C5. \<open>acceptOrder\<close> checks, in this order, that the rider profile exists (else
  404 \<open>RiderProfileNotFound\<close>), that the rider is available (else 400
  \<open>RiderNotAvailable\<close>), that the order exists (else 404 \<open>OrderNotFound\<close>), that its
  status is exactly \<open>ready\<close> (else 400 \<open>OrderNotReady\<close>) and that no rider is assigned
  (else 400 \<open>OrderAlreadyAccepted\<close>, the spec's Conflict). A request that passes all five
  assigns the rider. Every failure returns the store unchanged: no rider is assigned, no
  tracking row is written and no notification is published.
\<close>

theorem acceptOrder_preconditions:
  "(findRiderByUser s (u_id u) = None
      \<longrightarrow> acceptOrder ts u orderId s = (Inl RiderProfileNotFound, s))
   \<and> (\<forall>rider. findRiderByUser s (u_id u) = Some rider \<and> \<not> rd_isAvailable rider
      \<longrightarrow> acceptOrder ts u orderId s = (Inl RiderNotAvailable, s))
   \<and> (\<forall>rider. findRiderByUser s (u_id u) = Some rider \<and> rd_isAvailable rider
        \<and> findOrder s orderId = None
      \<longrightarrow> acceptOrder ts u orderId s = (Inl OrderNotFound, s))
   \<and> (\<forall>rider ord. findRiderByUser s (u_id u) = Some rider \<and> rd_isAvailable rider
        \<and> findOrder s orderId = Some ord \<and> o_status ord \<noteq> ''ready''
      \<longrightarrow> acceptOrder ts u orderId s = (Inl OrderNotReady, s))
   \<and> (\<forall>rider ord r. findRiderByUser s (u_id u) = Some rider \<and> rd_isAvailable rider
        \<and> findOrder s orderId = Some ord \<and> o_status ord = ''ready''
        \<and> o_riderId ord = Some r \<and> r \<noteq> []
      \<longrightarrow> acceptOrder ts u orderId s = (Inl OrderAlreadyAccepted, s))
   \<and> (\<forall>rider ord. findRiderByUser s (u_id u) = Some rider \<and> rd_isAvailable rider
        \<and> findOrder s orderId = Some ord \<and> o_status ord = ''ready'' \<and> o_riderId ord = None
      \<longrightarrow> (\<exists>s'. acceptOrder ts u orderId s = (Inr (ord\<lparr>o_riderId := Some (rd_id rider)\<rparr>), s')
             \<and> findOrder s' orderId = Some (ord\<lparr>o_riderId := Some (rd_id rider)\<rparr>)))
   \<and> (\<forall>e s'. acceptOrder ts u orderId s = (Inl e, s') \<longrightarrow> s' = s)
   \<and> map httpStatus [RiderProfileNotFound, RiderNotAvailable, OrderNotFound, OrderNotReady,
                      OrderAlreadyAccepted] = [404, 400, 404, 400, 400]"
proof (intro conjI allI impI)
  fix rider ord
  assume a: "findRiderByUser s (u_id u) = Some rider \<and> rd_isAvailable rider
        \<and> findOrder s orderId = Some ord \<and> o_status ord = ''ready'' \<and> o_riderId ord = None"
  let ?f = "\<lambda>row. row\<lparr>o_riderId := Some (rd_id rider)\<rparr>"
  from a have idem: "o_id ord = orderId" by (auto dest: findOrder_id)
  from a have upd: "orderUpdate orderId ?f s = Some (?f ord, updateOrder orderId ?f s)"
    by (simp add: orderUpdate_found)
  from a idem have look: "findOrder (updateOrder orderId ?f s) orderId = Some (?f ord)"
    by (simp add: findOrder_updateOrder)
  show "\<exists>s'. acceptOrder ts u orderId s = (Inr (ord\<lparr>o_riderId := Some (rd_id rider)\<rparr>), s')
             \<and> findOrder s' orderId = Some (ord\<lparr>o_riderId := Some (rd_id rider)\<rparr>)"
    using a upd look
    by (simp add: acceptOrder_def acceptChecks_def acceptWrites_def str_truthy_def Let_def
        createTracking_def emit_def findOrder_def)
next
  fix e s'
  assume "acceptOrder ts u orderId s = (Inl e, s')"
  then show "s' = s"
    by (auto simp: acceptOrder_def acceptWrites_def Let_def
        split: sum.splits option.splits prod.splits)
qed (simp_all add: acceptOrder_def acceptChecks_def str_truthy_def)

text \<open>
  One request for each of the five failures (the first by a rider without a profile), and
  one that succeeds.
\<close>

theorem acceptOrder_preconditions_witness:
  "acceptOrder 7 (riderUser\<lparr>u_id := ''u5''\<rparr>) ''o1'' (sampleStore sampleOrder)
     = (Inl RiderProfileNotFound, sampleStore sampleOrder)
   \<and> acceptOrder 7 riderUser ''o1'' (sampleStore sampleOrder\<lparr>riders := [sampleRider\<lparr>rd_isAvailable := False\<rparr>]\<rparr>)
     = (Inl RiderNotAvailable, sampleStore sampleOrder\<lparr>riders := [sampleRider\<lparr>rd_isAvailable := False\<rparr>]\<rparr>)
   \<and> acceptOrder 7 riderUser ''o2'' (sampleStore sampleOrder)
     = (Inl OrderNotFound, sampleStore sampleOrder)
   \<and> acceptOrder 7 riderUser ''o1'' (sampleStore sampleOrder)
     = (Inl OrderNotReady, sampleStore sampleOrder)
   \<and> acceptOrder 7 riderUser ''o1''
        (sampleStore (sampleOrder\<lparr>o_status := ''ready'', o_riderId := Some ''p4''\<rparr>))
     = (Inl OrderAlreadyAccepted,
        sampleStore (sampleOrder\<lparr>o_status := ''ready'', o_riderId := Some ''p4''\<rparr>))
   \<and> fst (acceptOrder 7 riderUser ''o1'' (sampleStore (sampleOrder\<lparr>o_status := ''ready''\<rparr>)))
     = Inr (sampleOrder\<lparr>o_status := ''ready'', o_riderId := Some ''p3''\<rparr>)"
proof -
  let ?s = "sampleStore sampleOrder"
  let ?s2 = "sampleStore sampleOrder\<lparr>riders := [sampleRider\<lparr>rd_isAvailable := False\<rparr>]\<rparr>"
  let ?s5 = "sampleStore (sampleOrder\<lparr>o_status := ''ready'', o_riderId := Some ''p4''\<rparr>)"
  let ?s6 = "sampleStore (sampleOrder\<lparr>o_status := ''ready''\<rparr>)"
  have r0: "findRiderByUser ?s (u_id (riderUser\<lparr>u_id := ''u5''\<rparr>)) = None"
    by (simp add: findRiderByUser_def sample_defs)
  have r1: "findRiderByUser ?s (u_id riderUser) = Some sampleRider"
       "findRiderByUser ?s5 (u_id riderUser) = Some sampleRider"
       "findRiderByUser ?s6 (u_id riderUser) = Some sampleRider"
       "rd_isAvailable sampleRider" "rd_id sampleRider = ''p3''"
    by (simp_all add: findRiderByUser_def sample_defs)
  have r2: "findRiderByUser ?s2 (u_id riderUser) = Some (sampleRider\<lparr>rd_isAvailable := False\<rparr>)"
    by (simp add: findRiderByUser_def sample_defs)
  have o: "findOrder ?s ''o2'' = None" "findOrder ?s ''o1'' = Some sampleOrder"
       "findOrder ?s5 ''o1'' = Some (sampleOrder\<lparr>o_status := ''ready'', o_riderId := Some ''p4''\<rparr>)"
       "findOrder ?s6 ''o1'' = Some (sampleOrder\<lparr>o_status := ''ready''\<rparr>)"
       "o_status sampleOrder = ''pending''" "o_riderId sampleOrder = None"
    by (simp_all add: findOrder_def sample_defs)
  show ?thesis
    using acceptOrder_preconditions [of ?s "riderUser\<lparr>u_id := ''u5''\<rparr>" 7 "''o1''"]
          acceptOrder_preconditions [of ?s2 riderUser 7 "''o1''"]
          acceptOrder_preconditions [of ?s riderUser 7 "''o2''"]
          acceptOrder_preconditions [of ?s riderUser 7 "''o1''"]
          acceptOrder_preconditions [of ?s5 riderUser 7 "''o1''"]
          acceptOrder_preconditions [of ?s6 riderUser 7 "''o1''"]
          r0 r1 r2 o
    by auto
qed

subsection \<open>Status updates\<close>

lemma updateData_id [simp]: "o_id (updateData st now created row) = o_id row"
  by (simp add: updateData_def Let_def)

lemma updateData_status [simp]: "o_status (updateData st now created row) = st"
  by (simp add: updateData_def Let_def)

lemma findOrder_updateOrder_other:
  assumes "\<And>row. o_id (f row) = o_id row" and "j \<noteq> i"
  shows "findOrder (updateOrder i f s) j = findOrder s j"
proof (cases "findOrder s j")
  case None
  then show ?thesis using assms(1) by (simp add: findOrder_updateOrder)
next
  case (Some row)
  then have "o_id row = j" by (rule findOrder_id)
  with Some assms show ?thesis by (simp add: findOrder_updateOrder)
qed

lemma findOrder_updateOrder_same:
  assumes "\<And>row. o_id (f row) = o_id row" and "findOrder s i = Some ord"
  shows "findOrder (updateOrder i f s) i = Some (f ord)"
  using assms findOrder_id [OF assms(2)] by (simp add: findOrder_updateOrder)

lemma findOrder_frame [simp]:
  "findOrder (createTracking oid st msg ts s) j = findOrder s j"
  "findOrder (emit room event s) j = findOrder s j"
  by (simp_all add: findOrder_def createTracking_def emit_def)

lemma updateOrderStatus_success:
  assumes "st \<in> set validStatuses" and "findOrder s i = Some ord"
      and "isAuthorized u ord (findRestaurant s (o_restaurantId ord)) st = Inr True"
  shows "updateOrderStatus now ts u i st msg s =
           (Inr (updateData st now (o_createdAt ord) ord),
            emit (''order_'' @ i) ''status_update''
              (emit (''user_'' @ o_customerId ord) ''order_status_update''
                 (createTracking i st (str_or msg (''Order '' @ st)) ts
                    (updateOrder i (updateData st now (o_createdAt ord)) s))))"
  using assms by (simp add: updateOrderStatus_def orderUpdate_def Let_def del: set_simps)

lemma updateOrderStatus_failure:
  assumes "updateOrderStatus now ts u i st msg s = (Inl e, s')"
  shows "s' = s"
  using assms
  by (auto simp: updateOrderStatus_def Let_def
      split: if_splits option.splits sum.splits prod.splits)

lemma updateOrderStatus_Inr:
  assumes "updateOrderStatus now ts u i st msg s = (Inr ord', s')"
  shows "\<exists>ord. st \<in> set validStatuses \<and> findOrder s i = Some ord
           \<and> isAuthorized u ord (findRestaurant s (o_restaurantId ord)) st = Inr True"
  using assms
  by (auto simp: updateOrderStatus_def Let_def
      split: if_splits option.splits sum.splits prod.splits)

text \<open>
  Claim C1, as amended. \<open>updateOrderStatus\<close> does not examine the order's current status.
  A request whose target is one of the seven valid statuses, whose order exists and whose
  caller is authorised for the target succeeds from every current status, \<open>delivered\<close>,
  \<open>cancelled\<close> and backward moves included, and the stored order then has the target
  status; the authorisation does not depend on the current status either. A request that
  is rejected leaves the store unchanged.
\<close>

theorem updateOrderStatus_ignores_current_status:
  "(st \<in> set validStatuses \<and> findOrder s i = Some ord
      \<and> isAuthorized u ord (findRestaurant s (o_restaurantId ord)) st = Inr True
    \<longrightarrow> (\<exists>ord' s'. updateOrderStatus now ts u i st msg s = (Inr ord', s')
            \<and> findOrder s' i = Some ord' \<and> o_status ord' = st))
   \<and> isAuthorized u (ord\<lparr>o_status := current\<rparr>) rest st = isAuthorized u ord rest st
   \<and> (\<forall>e s'. updateOrderStatus now ts u i st msg s = (Inl e, s') \<longrightarrow> s' = s)"
proof (intro conjI allI impI)
  assume a: "st \<in> set validStatuses \<and> findOrder s i = Some ord
      \<and> isAuthorized u ord (findRestaurant s (o_restaurantId ord)) st = Inr True"
  then have run: "updateOrderStatus now ts u i st msg s =
           (Inr (updateData st now (o_createdAt ord) ord),
            emit (''order_'' @ i) ''status_update''
              (emit (''user_'' @ o_customerId ord) ''order_status_update''
                 (createTracking i st (str_or msg (''Order '' @ st)) ts
                    (updateOrder i (updateData st now (o_createdAt ord)) s))))"
    by (simp add: updateOrderStatus_success del: set_simps)
  from a have "findOrder (updateOrder i (updateData st now (o_createdAt ord)) s) i
                 = Some (updateData st now (o_createdAt ord) ord)"
    by (simp add: findOrder_updateOrder_same del: set_simps)
  with run show "\<exists>ord' s'. updateOrderStatus now ts u i st msg s = (Inr ord', s')
            \<and> findOrder s' i = Some ord' \<and> o_status ord' = st"
    by simp
next
  show "isAuthorized u (ord\<lparr>o_status := current\<rparr>) rest st = isAuthorized u ord rest st"
    by (simp add: isAuthorized_def)
next
  fix e s'
  assume "updateOrderStatus now ts u i st msg s = (Inl e, s')"
  then show "s' = s" by (rule updateOrderStatus_failure)
qed

text \<open>
  The claim as stated fails: the restaurant owner sets a \<open>delivered\<close> order back to
  \<open>confirmed\<close>, the request succeeds and the stored status is \<open>confirmed\<close>.
\<close>

theorem updateOrderStatus_backward_counterexample:
  "o_status (sampleOrder\<lparr>o_status := ''delivered''\<rparr>) = ''delivered''
   \<and> map_sum id o_status
       (fst (updateOrderStatus 9 9 ownerUser ''o1'' ''confirmed'' None
              (sampleStore (sampleOrder\<lparr>o_status := ''delivered''\<rparr>)))) = Inr ''confirmed''
   \<and> map o_status
       (orders (snd (updateOrderStatus 9 9 ownerUser ''o1'' ''confirmed'' None
              (sampleStore (sampleOrder\<lparr>o_status := ''delivered''\<rparr>))))) = [''confirmed'']"
  by (simp add: updateOrderStatus_def validStatuses_def findOrder_def findRestaurant_def
      isAuthorized_def orderUpdate_def updateOrder_def updateData_def createTracking_def
      emit_def Let_def sample_defs)

text \<open>The restaurant owner moves a \<open>cancelled\<close> order to \<open>preparing\<close>.\<close>

theorem updateOrderStatus_ignores_current_status_witness:
  "''preparing'' \<in> set validStatuses
   \<and> findOrder (sampleStore (sampleOrder\<lparr>o_status := ''cancelled''\<rparr>)) ''o1''
       = Some (sampleOrder\<lparr>o_status := ''cancelled''\<rparr>)
   \<and> isAuthorized ownerUser (sampleOrder\<lparr>o_status := ''cancelled''\<rparr>)
        (findRestaurant (sampleStore (sampleOrder\<lparr>o_status := ''cancelled''\<rparr>))
           (o_restaurantId (sampleOrder\<lparr>o_status := ''cancelled''\<rparr>))) ''preparing'' = Inr True
   \<and> (\<exists>ord' s'. updateOrderStatus 9 9 ownerUser ''o1'' ''preparing'' None
                    (sampleStore (sampleOrder\<lparr>o_status := ''cancelled''\<rparr>)) = (Inr ord', s')
          \<and> findOrder s' ''o1'' = Some ord' \<and> o_status ord' = ''preparing'')"
proof -
  let ?o = "sampleOrder\<lparr>o_status := ''cancelled''\<rparr>"
  have v: "''preparing'' \<in> set validStatuses" by (simp add: validStatuses_def)
  have f: "findOrder (sampleStore ?o) ''o1'' = Some ?o"
    by (simp add: findOrder_def sample_defs)
  have a: "isAuthorized ownerUser ?o
             (findRestaurant (sampleStore ?o) (o_restaurantId ?o)) ''preparing'' = Inr True"
    by (simp add: isAuthorized_def findRestaurant_def sample_defs)
  from updateOrderStatus_ignores_current_status
         [of "''preparing''" "sampleStore ?o" "''o1''" ?o ownerUser 9 9 None] v f a
  show ?thesis by blast
qed

text \<open>
  Claim C7, as amended. A successful \<open>updateOrderStatus\<close> writes the status and, for a
  target other than \<open>pending\<close>, the one lifecycle timestamp of the target, which is set to
  the current time whether or not it was set before; for \<open>delivered\<close> it also writes
  \<open>actualTime\<close>, and for \<open>pending\<close> it writes no timestamp. Every other field of the order
  (monetary breakdown, items, rider, the other lifecycle timestamps) and every other
  order is unchanged.
\<close>

theorem updateOrderStatus_frame:
  assumes "updateOrderStatus now ts u i st msg s = (Inr ord', s')"
  shows "\<exists>ord. findOrder s i = Some ord \<and> findOrder s' i = Some ord'
     \<and> o_status ord' = st
     \<and> o_confirmedAt ord' = (if st = ''confirmed'' then Some now else o_confirmedAt ord)
     \<and> o_preparingAt ord' = (if st = ''preparing'' then Some now else o_preparingAt ord)
     \<and> o_readyAt ord' = (if st = ''ready'' then Some now else o_readyAt ord)
     \<and> o_pickedUpAt ord' = (if st = ''picked_up'' then Some now else o_pickedUpAt ord)
     \<and> o_deliveredAt ord' = (if st = ''delivered'' then Some now else o_deliveredAt ord)
     \<and> o_cancelledAt ord' = (if st = ''cancelled'' then Some now else o_cancelledAt ord)
     \<and> o_actualTime ord' = (if st = ''delivered''
                             then Some ((now - o_createdAt ord) div 60000)
                             else o_actualTime ord)
     \<and> ord'\<lparr>o_status := o_status ord, o_confirmedAt := o_confirmedAt ord,
             o_preparingAt := o_preparingAt ord, o_readyAt := o_readyAt ord,
             o_pickedUpAt := o_pickedUpAt ord, o_deliveredAt := o_deliveredAt ord,
             o_cancelledAt := o_cancelledAt ord, o_actualTime := o_actualTime ord\<rparr> = ord
     \<and> (\<forall>j. j \<noteq> i \<longrightarrow> findOrder s' j = findOrder s j)"
proof -
  from assms obtain ord where v: "st \<in> set validStatuses" and f: "findOrder s i = Some ord"
    and a: "isAuthorized u ord (findRestaurant s (o_restaurantId ord)) st = Inr True"
    using updateOrderStatus_Inr by blast
  let ?f = "updateData st now (o_createdAt ord)"
  from updateOrderStatus_success [OF v f a, of now ts msg] assms
  have r: "ord' = ?f ord"
    and s': "s' = emit (''order_'' @ i) ''status_update''
              (emit (''user_'' @ o_customerId ord) ''order_status_update''
                 (createTracking i st (str_or msg (''Order '' @ st)) ts (updateOrder i ?f s)))"
    by simp_all
  have look: "findOrder s' i = Some ord'"
    using f by (simp add: s' r findOrder_updateOrder_same)
  have others: "\<forall>j. j \<noteq> i \<longrightarrow> findOrder s' j = findOrder s j"
    by (simp add: s' findOrder_updateOrder_other)
  have fields: "o_status ord' = st
     \<and> o_confirmedAt ord' = (if st = ''confirmed'' then Some now else o_confirmedAt ord)
     \<and> o_preparingAt ord' = (if st = ''preparing'' then Some now else o_preparingAt ord)
     \<and> o_readyAt ord' = (if st = ''ready'' then Some now else o_readyAt ord)
     \<and> o_pickedUpAt ord' = (if st = ''picked_up'' then Some now else o_pickedUpAt ord)
     \<and> o_deliveredAt ord' = (if st = ''delivered'' then Some now else o_deliveredAt ord)
     \<and> o_cancelledAt ord' = (if st = ''cancelled'' then Some now else o_cancelledAt ord)
     \<and> o_actualTime ord' = (if st = ''delivered''
                             then Some ((now - o_createdAt ord) div 60000)
                             else o_actualTime ord)"
    by (simp add: r updateData_def Let_def)
  have rest: "ord'\<lparr>o_status := o_status ord, o_confirmedAt := o_confirmedAt ord,
             o_preparingAt := o_preparingAt ord, o_readyAt := o_readyAt ord,
             o_pickedUpAt := o_pickedUpAt ord, o_deliveredAt := o_deliveredAt ord,
             o_cancelledAt := o_cancelledAt ord, o_actualTime := o_actualTime ord\<rparr> = ord"
    by (simp add: r updateData_def Let_def)
  from f look fields rest others show ?thesis by blast
qed

text \<open>The restaurant owner marks the sample order \<open>ready\<close> at time 200.\<close>

theorem updateOrderStatus_frame_witness:
  "\<exists>ord' s'. updateOrderStatus 200 201 ownerUser ''o1'' ''ready'' None (sampleStore sampleOrder)
                 = (Inr ord', s')
     \<and> findOrder s' ''o1'' = Some ord'
     \<and> o_status ord' = ''ready'' \<and> o_readyAt ord' = Some 200 \<and> o_confirmedAt ord' = None
     \<and> o_total ord' = 308 \<and> o_items ord' = sampleItems"
proof -
  have v: "''ready'' \<in> set validStatuses" by (simp add: validStatuses_def)
  have f: "findOrder (sampleStore sampleOrder) ''o1'' = Some sampleOrder"
    by (simp add: findOrder_def sample_defs)
  have a: "isAuthorized ownerUser sampleOrder
             (findRestaurant (sampleStore sampleOrder) (o_restaurantId sampleOrder)) ''ready''
           = Inr True"
    by (simp add: isAuthorized_def findRestaurant_def sample_defs)
  from updateOrderStatus_success [OF v f a, of 200 201 None]
  obtain ord' s' where
    run: "updateOrderStatus 200 201 ownerUser ''o1'' ''ready'' None (sampleStore sampleOrder)
            = (Inr ord', s')"
    by blast
  from updateOrderStatus_frame [OF run] f
  have "findOrder s' ''o1'' = Some ord' \<and> o_status ord' = ''ready''
        \<and> o_readyAt ord' = Some 200 \<and> o_confirmedAt ord' = o_confirmedAt sampleOrder
        \<and> ord'\<lparr>o_status := o_status sampleOrder, o_confirmedAt := o_confirmedAt sampleOrder,
             o_preparingAt := o_preparingAt sampleOrder, o_readyAt := o_readyAt sampleOrder,
             o_pickedUpAt := o_pickedUpAt sampleOrder,
             o_deliveredAt := o_deliveredAt sampleOrder,
             o_cancelledAt := o_cancelledAt sampleOrder,
             o_actualTime := o_actualTime sampleOrder\<rparr> = sampleOrder"
    by auto
  then have "findOrder s' ''o1'' = Some ord' \<and> o_status ord' = ''ready''
        \<and> o_readyAt ord' = Some 200 \<and> o_confirmedAt ord' = None
        \<and> o_total ord' = 308 \<and> o_items ord' = sampleItems"
    by (cases ord') (auto simp: sampleOrder_def)
  with run show ?thesis by blast
qed

text \<open>
  The claim as stated fails: an order confirmed at time 100 and set to \<open>confirmed\<close> again
  at time 200 has its \<open>confirmedAt\<close> overwritten.
\<close>

theorem updateOrderStatus_overwrites_timestamp_counterexample:
  "o_confirmedAt (sampleOrder\<lparr>o_status := ''preparing'', o_confirmedAt := Some 100\<rparr>) = Some 100
   \<and> map_sum id o_confirmedAt
       (fst (updateOrderStatus 200 201 ownerUser ''o1'' ''confirmed'' None
              (sampleStore (sampleOrder\<lparr>o_status := ''preparing'', o_confirmedAt := Some 100\<rparr>))))
       = Inr (Some 200)
   \<and> map o_confirmedAt
       (orders (snd (updateOrderStatus 200 201 ownerUser ''o1'' ''confirmed'' None
              (sampleStore (sampleOrder\<lparr>o_status := ''preparing'', o_confirmedAt := Some 100\<rparr>)))))
       = [Some 200]"
  by (simp add: updateOrderStatus_def validStatuses_def findOrder_def findRestaurant_def
      isAuthorized_def orderUpdate_def updateOrder_def updateData_def createTracking_def
      emit_def Let_def sample_defs)

subsection \<open>The tracking log\<close>

lemma createOrder_failure:
  "createOrder env ts u rq s = (Inl e, s') \<Longrightarrow> s' = s"
  by (auto simp: createOrder_def Let_def split: option.splits if_splits)

lemma createOrder_tracking:
  "createOrder env ts u rq s = (Inr ord, s') \<Longrightarrow>
     orderTracking s' = orderTracking s @
       [\<lparr>t_orderId = o_id ord, t_status = ''pending'',
         t_message = ''Order placed successfully'', t_timestamp = ts\<rparr>]"
  by (auto simp: createOrder_def Let_def createTracking_def emit_def
      split: option.splits if_splits)

lemma cancelOrder_failure:
  "cancelOrder now now2 ts u i reason s = (Inl e, s') \<Longrightarrow> s' = s"
  by (auto simp: cancelOrder_def Let_def split: option.splits if_splits prod.splits)

lemma orderUpdate_SomeD:
  "orderUpdate i f s = Some (row', s1) \<Longrightarrow>
     \<exists>row. findOrder s i = Some row \<and> row' = f row \<and> s1 = updateOrder i f s"
  by (auto simp: orderUpdate_def split: option.splits)

lemma cancelOrder_tracking:
  assumes "cancelOrder now now2 ts u i reason s = (Inr ord, s')"
  shows "\<exists>e. orderTracking s' = orderTracking s @ [e] \<and> t_orderId e = o_id ord
           \<and> t_status e = ''cancelled'' \<and> t_timestamp e = ts"
  using assms
  by (auto simp: cancelOrder_def Let_def createTracking_def emit_def
      split: option.splits if_splits prod.splits dest!: orderUpdate_SomeD findOrder_id)

lemma acceptOrder_failure:
  "acceptOrder ts u orderId s = (Inl e, s') \<Longrightarrow> s' = s"
  by (auto simp: acceptOrder_def acceptWrites_def Let_def
      split: sum.splits option.splits prod.splits)

lemma acceptOrder_tracking:
  assumes "acceptOrder ts u orderId s = (Inr ord, s')"
  shows "\<exists>e. orderTracking s' = orderTracking s @ [e] \<and> t_orderId e = o_id ord
           \<and> t_status e = ''ready'' \<and> t_timestamp e = ts"
  using assms
  by (auto simp: acceptOrder_def acceptWrites_def acceptChecks_def Let_def createTracking_def
      emit_def split: sum.splits option.splits if_splits prod.splits
      dest!: orderUpdate_SomeD findOrder_id)

lemma updateOrderStatus_tracking:
  assumes "updateOrderStatus now ts u i st msg s = (Inr ord, s')"
  shows "\<exists>e. orderTracking s' = orderTracking s @ [e] \<and> t_orderId e = o_id ord
           \<and> t_status e = st \<and> t_timestamp e = ts"
proof -
  from updateOrderStatus_Inr [OF assms] obtain row where
    v: "st \<in> set validStatuses" and f: "findOrder s i = Some row"
    and a: "isAuthorized u row (findRestaurant s (o_restaurantId row)) st = Inr True"
    by blast
  from updateOrderStatus_success [OF v f a, of now ts msg] assms findOrder_id [OF f]
  show ?thesis by (auto simp: createTracking_def emit_def)
qed

lemma perform_failure: "perform ts opn s = (Inl e, s') \<Longrightarrow> s' = s"
  by (cases opn)
     (auto dest: createOrder_failure updateOrderStatus_failure cancelOrder_failure
        acceptOrder_failure)

lemma perform_tracking:
  assumes "perform ts opn s = (Inr ord, s')"
  shows "\<exists>e. orderTracking s' = orderTracking s @ [e] \<and> t_orderId e = o_id ord
           \<and> t_timestamp e = ts"
proof (cases opn)
  case (CreateOrder env u rq)
  with assms show ?thesis by (auto dest: createOrder_tracking)
next
  case (UpdateOrderStatus now u i st msg)
  with assms show ?thesis by (auto dest: updateOrderStatus_tracking)
next
  case (CancelOrder now now2 u i reason)
  with assms show ?thesis by (auto dest: cancelOrder_tracking)
next
  case (AcceptOrder u orderId)
  with assms show ?thesis by (auto dest: acceptOrder_tracking)
qed

lemma perform_times_exact:
  "trackingTimes (snd (perform ts opn s)) oid =
     trackingTimes s oid @
       (case fst (perform ts opn s) of
          Inl e \<Rightarrow> []
        | Inr ord \<Rightarrow> if o_id ord = oid then [ts] else [])"
proof (cases "perform ts opn s")
  case (Pair r s')
  show ?thesis
  proof (cases r)
    case (Inl e)
    with Pair have "s' = s" by (auto dest: perform_failure)
    with Pair Inl show ?thesis by simp
  next
    case (Inr ord)
    with Pair perform_tracking obtain e where
      "orderTracking s' = orderTracking s @ [e]" "t_orderId e = o_id ord" "t_timestamp e = ts"
      by blast
    with Pair Inr show ?thesis by (simp add: trackingTimes_def)
  qed
qed

lemma perform_prefix:
  "\<exists>new. orderTracking (snd (perform ts opn s)) = orderTracking s @ new"
proof (cases "perform ts opn s")
  case (Pair r s')
  show ?thesis
  proof (cases r)
    case (Inl e)
    with Pair have "s' = s" by (auto dest: perform_failure)
    with Pair show ?thesis by simp
  next
    case (Inr ord)
    with Pair perform_tracking obtain e where
      "orderTracking s' = orderTracking s @ [e]" by blast
    with Pair show ?thesis by simp
  qed
qed

lemma run_prefix: "\<exists>new. orderTracking (run history s) = orderTracking s @ new"
proof (induction history arbitrary: s)
  case Nil
  show ?case by simp
next
  case (Cons a history)
  obtain ts opn where a: "a = (ts, opn)" by (cases a)
  from perform_prefix obtain n1 where
    n1: "orderTracking (snd (perform ts opn s)) = orderTracking s @ n1" by blast
  from Cons.IH obtain n2 where
    "orderTracking (run history (snd (perform ts opn s)))
       = orderTracking (snd (perform ts opn s)) @ n2" by blast
  with n1 a show ?case by simp
qed

lemma run_times_exact:
  "trackingTimes (run history s) oid = trackingTimes s oid @ orderStamps oid history s"
proof (induction history arbitrary: s)
  case Nil
  show ?case by simp
next
  case (Cons a history)
  obtain ts opn where a: "a = (ts, opn)" by (cases a)
  show ?case
    unfolding a by (simp add: Cons.IH perform_times_exact)
qed

text \<open>
  Claim C9, as amended. Each successful lifecycle operation (\<open>createOrder\<close>,
  \<open>updateOrderStatus\<close>, \<open>cancelOrder\<close>, \<open>acceptOrder\<close>) appends exactly one tracking row,
  for its order and stamped by the store; for \<open>createOrder\<close> it is the \<open>pending\<close> row
  with the message "Order placed successfully". A failed operation leaves the store, and
  so the log, as it was. A history of operations only appends to the log: no row is
  updated or deleted. After a history the timestamps of an order's rows are those it
  had before, followed by the clock readings of the operations that succeeded on that
  order. They are therefore strictly increasing exactly when the earlier ones are, the
  readings of the successful operations on the order are, and each reading is beyond
  every earlier timestamp; the readings of refused requests play no part, and the
  handlers themselves do nothing to order the readings.
\<close>

theorem lifecycle_tracking_log:
  "(\<forall>ord s'. perform ts opn s = (Inr ord, s')
      \<longrightarrow> (\<exists>e. orderTracking s' = orderTracking s @ [e]
               \<and> t_orderId e = o_id ord \<and> t_timestamp e = ts))
   \<and> (\<forall>ord s'. createOrder env ts u rq s = (Inr ord, s')
      \<longrightarrow> orderTracking s' = orderTracking s @
            [\<lparr>t_orderId = o_id ord, t_status = ''pending'',
              t_message = ''Order placed successfully'', t_timestamp = ts\<rparr>])
   \<and> (\<forall>e s'. perform ts opn s = (Inl e, s') \<longrightarrow> s' = s)
   \<and> (\<exists>new. orderTracking (run history s) = orderTracking s @ new)
   \<and> trackingTimes (run history s) oid = trackingTimes s oid @ orderStamps oid history s
   \<and> (sorted_wrt (<) (trackingTimes (run history s) oid)
        \<longleftrightarrow> sorted_wrt (<) (trackingTimes s oid)
            \<and> sorted_wrt (<) (orderStamps oid history s)
            \<and> (\<forall>t\<in>set (trackingTimes s oid). \<forall>ts'\<in>set (orderStamps oid history s). t < ts'))"
  using perform_tracking [of ts opn s] createOrder_tracking [of env ts u rq s]
    perform_failure [of ts opn s] run_prefix [of history s]
  by (simp add: run_times_exact sorted_wrt_append)

text \<open>The sample history run on the sample store.\<close>

lemma sampleHistory_times:
  "trackingTimes (run (sampleHistory t1 t2 t3 t4) (sampleStore sampleOrder)) ''o2''
     = [t1, t2, t3]"
  "trackingTimes (run (sampleHistory t1 t2 t3 t4) (sampleStore sampleOrder)) ''o1'' = [t4]"
  by (simp_all add: sampleHistory_def sampleRequest_def sampleEnv_def trackingTimes_def
      handler_defs sample_defs)

text \<open>
  The history with refused requests, whose clock readings are 1, 5, 2, 9, 3: the
  successful operations on the new order are stamped 1, 2, 3, and so are its rows.
\<close>

lemma refusedHistory_stamps:
  "orderStamps ''o2'' refusedHistory (sampleStore sampleOrder) = [1, 2, 3]"
  "orderStamps ''o1'' refusedHistory (sampleStore sampleOrder) = [9]"
  "map (\<lambda>(ts, opn). ts) refusedHistory = [1, 5, 2, 9, 3]"
  by (simp_all add: refusedHistory_def sampleRequest_def sampleEnv_def handler_defs sample_defs)

theorem lifecycle_tracking_log_witness:
  "orderStamps ''o2'' refusedHistory (sampleStore sampleOrder) = [1, 2, 3]
   \<and> trackingTimes (run refusedHistory (sampleStore sampleOrder)) ''o2'' = [1, 2, 3]
   \<and> sorted_wrt (<) (trackingTimes (run refusedHistory (sampleStore sampleOrder)) ''o2'')
   \<and> orderTracking (snd (perform 1 (CreateOrder sampleEnv customerUser sampleRequest)
                            (sampleStore sampleOrder)))
      = [\<lparr>t_orderId = ''o2'', t_status = ''pending'',
          t_message = ''Order placed successfully'', t_timestamp = 1\<rparr>]"
proof -
  have e: "trackingTimes (sampleStore sampleOrder) ''o2'' = []"
    by (simp add: trackingTimes_def sample_defs)
  from lifecycle_tracking_log [of 1 "CreateOrder sampleEnv customerUser sampleRequest"
         "sampleStore sampleOrder" sampleEnv customerUser sampleRequest
         refusedHistory "''o2''"] e
  have "trackingTimes (run refusedHistory (sampleStore sampleOrder)) ''o2'' = [1, 2, 3]
      \<and> sorted_wrt (<) (trackingTimes (run refusedHistory (sampleStore sampleOrder)) ''o2'')"
    by (simp add: refusedHistory_stamps)
  moreover have "orderTracking (snd (perform 1 (CreateOrder sampleEnv customerUser sampleRequest)
                            (sampleStore sampleOrder)))
      = [\<lparr>t_orderId = ''o2'', t_status = ''pending'',
          t_message = ''Order placed successfully'', t_timestamp = 1\<rparr>]"
    by (simp add: sampleRequest_def sampleEnv_def handler_defs sample_defs)
  ultimately show ?thesis by (simp add: refusedHistory_stamps)
qed

text \<open>
  The claim as stated fails: when the owner's update and the rider's acceptance are
  stamped with the same clock reading, the order's rows are stamped 1, 2, 2, which is
  not strictly increasing.
\<close>

theorem tracking_equal_timestamps_counterexample:
  "trackingTimes (run (sampleHistory 1 2 2 4) (sampleStore sampleOrder)) ''o2'' = [1, 2, 2]
   \<and> \<not> sorted_wrt (<)
         (trackingTimes (run (sampleHistory 1 2 2 4) (sampleStore sampleOrder)) ''o2'')"
  by (simp add: sampleHistory_times)

subsection \<open>Order totals\<close>

text \<open>
  What \<open>calculateOrderTotals\<close> computes: the subtotal is the sum of price times
  quantity, platform fee and taxes are 2 and 5 percent of it rounded to integers, which are
  not negative when no price and no quantity is, and the total is the sum of the four
  amounts. \<open>createOrder\<close> stores these amounts in the order.
\<close>

lemma foldl_sum:
  "foldl (\<lambda>sum item. sum + f item) acc items = acc + sum_list (map f items)"
  by (induction items arbitrary: acc) (simp_all add: add.assoc)

lemma calculateOrderTotals_fields:
  "subtotal (calculateOrderTotals items rest)
     = (\<Sum>item\<leftarrow>items. it_price item * it_quantity item)"
  "platformFee (calculateOrderTotals items rest)
     = Math_round (0.02 * subtotal (calculateOrderTotals items rest))"
  "taxes (calculateOrderTotals items rest)
     = Math_round (0.05 * subtotal (calculateOrderTotals items rest))"
  "total (calculateOrderTotals items rest)
     = subtotal (calculateOrderTotals items rest) + deliveryFee (calculateOrderTotals items rest)
       + platformFee (calculateOrderTotals items rest) + taxes (calculateOrderTotals items rest)"
  "platformFee (calculateOrderTotals items rest) \<in> \<int>"
  "taxes (calculateOrderTotals items rest) \<in> \<int>"
  by (simp_all add: calculateOrderTotals_def Let_def foldl_sum Math_round_def mult.commute)

lemma calculateOrderTotals_nonneg:
  assumes "\<forall>item\<in>set items. 0 \<le> it_price item \<and> 0 \<le> it_quantity item"
  shows "0 \<le> platformFee (calculateOrderTotals items rest)"
    and "0 \<le> taxes (calculateOrderTotals items rest)"
proof -
  have "0 \<le> (\<Sum>item\<leftarrow>items. it_price item * it_quantity item)"
    using assms by (intro sum_list_nonneg) auto
  then show "0 \<le> platformFee (calculateOrderTotals items rest)"
    and "0 \<le> taxes (calculateOrderTotals items rest)"
    by (simp_all add: calculateOrderTotals_def Let_def foldl_sum Math_round_def)
qed

lemma calculateOrderTotals_deliveryFee:
  "deliveryFee (calculateOrderTotals items rest)
     = (case r_deliveryFee rest of None \<Rightarrow> 40 | Some fee \<Rightarrow> if fee = 0 then 40 else fee)"
  by (simp add: calculateOrderTotals_def Let_def num_or_def)

lemma createOrder_totals:
  assumes "createOrder env ts u rq s = (Inr ord, s')"
  shows "\<exists>rest. findRestaurant s (rq_restaurantId rq) = Some rest
     \<and> o_subtotal ord = subtotal (calculateOrderTotals (o_items ord) rest)
     \<and> o_deliveryFee ord = deliveryFee (calculateOrderTotals (o_items ord) rest)
     \<and> o_platformFee ord = platformFee (calculateOrderTotals (o_items ord) rest)
     \<and> o_taxes ord = taxes (calculateOrderTotals (o_items ord) rest)
     \<and> o_total ord = total (calculateOrderTotals (o_items ord) rest)"
  using assms
  by (auto simp: createOrder_def Let_def newOrder_def split: option.splits if_splits)

text \<open>
  Claim C2. The delivery fee is \<^verbatim>\<open>restaurant.deliveryFee || 40\<close>: the configured fee
  when it is set and not zero, and 40 otherwise. A restaurant that has configured a
  delivery fee of 0 is therefore charged as if it had none: for the sample items
  (100 \<times> 2 and 50 \<times> 1) the totals are subtotal 250, delivery fee 40, platform fee 5,
  taxes 13 and total 308, where the configured fee gives delivery fee 0 and total 268.
\<close>

theorem zero_delivery_fee_charged_40:
  "r_deliveryFee (sampleRestaurant\<lparr>r_deliveryFee := Some 0\<rparr>) = Some 0
   \<and> calculateOrderTotals sampleItems (sampleRestaurant\<lparr>r_deliveryFee := Some 0\<rparr>)
     = \<lparr>subtotal = 250, deliveryFee = 40, platformFee = 5, taxes = 13, total = 308\<rparr>"
  by (simp add: sampleItems_def handler_defs sample_defs)

text \<open>The same request through \<open>createOrder\<close>: the order is stored with these amounts.\<close>

lemma createOrder_zero_delivery_fee:
  "map_sum id (\<lambda>ord. (o_subtotal ord, o_deliveryFee ord, o_total ord))
       (fst (createOrder sampleEnv 1 customerUser sampleRequest
               ((sampleStore sampleOrder)
                  \<lparr>restaurants := [sampleRestaurant\<lparr>r_deliveryFee := Some 0\<rparr>]\<rparr>)))
     = Inr (250, 40, 308)"
  by (simp add: sampleItems_def sampleRequest_def sampleEnv_def handler_defs sample_defs)

subsection \<open>Two riders accepting the same order\<close>

text \<open>
  The write of \<open>acceptOrder\<close> assigns the rider to the row with the given id whatever
  its \<open>riderId\<close> is at that moment.
\<close>

lemma acceptWrites_unconditional:
  assumes "findOrder s orderId = Some row"
  shows "fst (acceptWrites ts u orderId rider ord s)
           = Inr (row\<lparr>o_riderId := Some (rd_id rider)\<rparr>)"
  using assms by (simp add: acceptWrites_def orderUpdate_def Let_def)

text \<open>
  Claim C3. Two riders call \<open>acceptOrder\<close> for the same \<open>ready\<close>, unassigned order and
  both run their reads before either writes. Both pass the checks on the same store;
  the first write assigns rider \<open>p3\<close> and succeeds, the second write assigns rider
  \<open>p4\<close> over it and succeeds as well. Neither call fails, and the order ends with the
  second rider.
\<close>

theorem concurrent_accepts_both_succeed:
  "acceptChecks riderUser ''o1'' (sampleStore (sampleOrder\<lparr>o_status := ''ready''\<rparr>))
     = Inr (sampleRider, sampleOrder\<lparr>o_status := ''ready''\<rparr>)
   \<and> acceptChecks riderUser2 ''o1'' (sampleStore (sampleOrder\<lparr>o_status := ''ready''\<rparr>))
     = Inr (sampleRider2, sampleOrder\<lparr>o_status := ''ready''\<rparr>)
   \<and> fst (acceptWrites 5 riderUser ''o1'' sampleRider (sampleOrder\<lparr>o_status := ''ready''\<rparr>)
            (sampleStore (sampleOrder\<lparr>o_status := ''ready''\<rparr>)))
     = Inr (sampleOrder\<lparr>o_status := ''ready'', o_riderId := Some ''p3''\<rparr>)
   \<and> fst (acceptWrites 6 riderUser2 ''o1'' sampleRider2 (sampleOrder\<lparr>o_status := ''ready''\<rparr>)
            (snd (acceptWrites 5 riderUser ''o1'' sampleRider
                    (sampleOrder\<lparr>o_status := ''ready''\<rparr>)
                    (sampleStore (sampleOrder\<lparr>o_status := ''ready''\<rparr>)))))
     = Inr (sampleOrder\<lparr>o_status := ''ready'', o_riderId := Some ''p4''\<rparr>)
   \<and> map o_riderId
       (orders (snd (acceptWrites 6 riderUser2 ''o1'' sampleRider2
                       (sampleOrder\<lparr>o_status := ''ready''\<rparr>)
                       (snd (acceptWrites 5 riderUser ''o1'' sampleRider
                               (sampleOrder\<lparr>o_status := ''ready''\<rparr>)
                               (sampleStore (sampleOrder\<lparr>o_status := ''ready''\<rparr>)))))))
     = [Some ''p4'']"
  by (simp add: handler_defs sample_defs)

subsection \<open>Who may update the status\<close>

text \<open>
  The authorisation of \<open>updateOrderStatus\<close> by role: the owner of the order's restaurant
  may set \<open>confirmed\<close>, \<open>preparing\<close>, \<open>ready\<close> and \<open>cancelled\<close>; a rider may set
  \<open>picked_up\<close> and \<open>delivered\<close> when the order's \<open>riderId\<close> equals the rider's user id;
  an admin may set any status; nobody else may set anything.
\<close>

lemma isAuthorized_owner:
  "u_role u = ''restaurant'' \<Longrightarrow> r_userId rest = u_id u \<Longrightarrow>
     isAuthorized u ord (Some rest) st
       = Inr (st \<in> {''confirmed'', ''preparing'', ''ready'', ''cancelled''})"
  by (simp add: isAuthorized_def)

lemma isAuthorized_admin:
  "u_role u = ''admin'' \<Longrightarrow> isAuthorized u ord rest st = Inr True"
  by (simp add: isAuthorized_def)

lemma isAuthorized_rider:
  "u_role u = ''rider'' \<Longrightarrow>
     isAuthorized u ord rest st
       = Inr (o_riderId ord = Some (u_id u) \<and> st \<in> {''picked_up'', ''delivered''})"
  by (simp add: isAuthorized_def)

lemma isAuthorized_others:
  "u_role u \<noteq> ''restaurant'' \<Longrightarrow> u_role u \<noteq> ''rider'' \<Longrightarrow> u_role u \<noteq> ''admin'' \<Longrightarrow>
     isAuthorized u ord rest st = Inr False"
  "u_role u = ''restaurant'' \<Longrightarrow> r_userId r \<noteq> u_id u \<Longrightarrow>
     isAuthorized u ord (Some r) st = Inr False"
  by (simp_all add: isAuthorized_def)

text \<open>
  Claim C4. \<open>acceptOrder\<close> stores the id of the rider profile (\<open>p3\<close>) in \<open>riderId\<close>,
  and \<open>updateOrderStatus\<close> compares \<open>riderId\<close> with the id of the user (\<open>u3\<close>). The
  rider who has just accepted the order is therefore refused when marking it
  \<open>picked_up\<close>: the response is 403 and the store is unchanged.
\<close>

theorem assigned_rider_cannot_pick_up:
  "fst (acceptOrder 5 riderUser ''o1'' (sampleStore (sampleOrder\<lparr>o_status := ''ready''\<rparr>)))
     = Inr (sampleOrder\<lparr>o_status := ''ready'', o_riderId := Some ''p3''\<rparr>)
   \<and> rd_id sampleRider = ''p3'' \<and> rd_userId sampleRider = u_id riderUser
   \<and> updateOrderStatus 6 6 riderUser ''o1'' ''picked_up'' None
        (snd (acceptOrder 5 riderUser ''o1'' (sampleStore (sampleOrder\<lparr>o_status := ''ready''\<rparr>))))
     = (Inl NotAuthorizedToUpdate,
        snd (acceptOrder 5 riderUser ''o1'' (sampleStore (sampleOrder\<lparr>o_status := ''ready''\<rparr>))))"
  by (simp add: handler_defs sample_defs)

subsection \<open>Orders available to a rider\<close>

text \<open>Three distances: half a turn along the equator, no distance, and pole to pole.\<close>

lemma distance_half_turn: "distance 0 0 0 180 = Some (6371 * pi)"
  by (simp add: distance_def Math_sqrt_def Math_atan2_def Let_def)

lemma half_turn_far: "(10::real) < 6371 * pi"
  using pi_gt_zero pi_ge_two by simp

lemma distance_same_place: "distance 90 5 90 5 = Some 0"
  by (simp add: distance_def Math_sqrt_def Math_atan2_def Let_def)

lemma distance_pole_to_pole: "distance 90 5 (- 90) 5 = Some (6371 * pi)"
  by (simp add: distance_def Math_sqrt_def Math_atan2_def Let_def)

text \<open>
  The result is a sublist of the twenty candidates, which are ready and unassigned. With
  a location supplied, an order whose restaurant has both coordinates set and not zero is
  in the result only within the radius; a restaurant without coordinates passes the
  filter.
\<close>

lemma findReadyOrders_subset:
  "set (findReadyOrders s) \<subseteq> {ord \<in> set (orders s). isReadyUnassigned ord}"
  by (auto simp: findReadyOrders_def dest: in_set_takeD)

lemma listAvailableOrders_filter:
  assumes "listAvailableOrders u la lo rad s = Inr res"
  shows "\<exists>keep. res = filter keep (findReadyOrders s)"
proof (cases "query_truthy la \<and> query_truthy lo")
  case True
  with assms have "res = filter (keepOrder s (parseFloat la) (parseFloat lo) (parseRadius rad))
                           (findReadyOrders s)"
    by (auto simp: listAvailableOrders_def Let_def split: option.splits if_splits)
  then show ?thesis by blast
next
  case False
  with assms have "res = filter (\<lambda>_. True) (findReadyOrders s)"
    by (auto simp: listAvailableOrders_def Let_def split: option.splits if_splits)
  then show ?thesis by blast
qed

lemma listAvailableOrders_ready_unassigned:
  assumes "listAvailableOrders u la lo rad s = Inr res" and "ord \<in> set res"
  shows "ord \<in> set (orders s) \<and> o_status ord = ''ready'' \<and> o_riderId ord = None"
proof -
  from listAvailableOrders_filter [OF assms(1)] assms(2)
  have "ord \<in> set (findReadyOrders s)" by auto
  with findReadyOrders_subset show ?thesis by (auto simp: isReadyUnassigned_def)
qed

lemma listAvailableOrders_within_radius:
  assumes "listAvailableOrders u la lo rad s = Inr res" and "ord \<in> set res"
      and "query_truthy la" and "query_truthy lo"
      and "findRestaurant s (o_restaurantId ord) = Some rest"
      and "r_latitude rest = Some rla" and "rla \<noteq> 0"
      and "r_longitude rest = Some rlo" and "rlo \<noteq> 0"
  shows "\<exists>a b m d. parseFloat la = Some a \<and> parseFloat lo = Some b \<and> parseRadius rad = Some m
           \<and> distance a b rla rlo = Some d \<and> d \<le> m"
proof -
  from assms(1-4) have "keepOrder s (parseFloat la) (parseFloat lo) (parseRadius rad) ord"
    by (auto simp: listAvailableOrders_def Let_def split: option.splits if_splits)
  with assms(5-9) show ?thesis
    by (auto simp: keepOrder_def withinRadius_def num_falsy_def split: option.splits)
qed

lemma withinRadius_no_coordinates:
  "r_latitude rest = None \<or> r_longitude rest = None \<Longrightarrow> withinRadius a b m rest"
  by (auto simp: withinRadius_def num_falsy_def)

text \<open>
  Claim C8. The filter takes a coordinate that is 0 for a missing one
  (\<^verbatim>\<open>!order.restaurant.latitude\<close>). An order whose restaurant is recorded at latitude 0,
  longitude 180 is in the result for a rider at latitude 0, longitude 0 with the default
  radius of 10 km, although the distance is \<open>6371 * pi\<close> km.
\<close>

theorem zero_coordinate_restaurant_kept:
  "listAvailableOrders riderUser (Numeric 0) (Numeric 0) Missing
     ((sampleStore (sampleOrder\<lparr>o_status := ''ready''\<rparr>))
        \<lparr>restaurants := [sampleRestaurant\<lparr>r_latitude := Some 0, r_longitude := Some 180\<rparr>]\<rparr>)
     = Inr [sampleOrder\<lparr>o_status := ''ready''\<rparr>]
   \<and> parseRadius Missing = Some 10
   \<and> distance 0 0 0 180 = Some (6371 * pi)
   \<and> (10::real) < 6371 * pi"
  by (simp add: distance_half_turn half_turn_far listAvailableOrders_def findReadyOrders_def
      isReadyUnassigned_def keepOrder_def withinRadius_def num_falsy_def query_truthy_def
      parseFloat_def parseRadius_def handler_defs sample_defs)

text \<open>
  With a rider who has a profile and is available, the handler returns the candidates
  as they are when no location is supplied, and the candidates that pass the distance
  filter when one is (and every candidate has its restaurant).
\<close>

lemma listAvailableOrders_exact:
  assumes "findRiderByUser s (u_id u) = Some rider" and "rd_isAvailable rider"
  shows "\<not> (query_truthy la \<and> query_truthy lo) \<Longrightarrow>
           listAvailableOrders u la lo rad s
             = Inr (take 20 (sort_key readyKey (filter isReadyUnassigned (orders s))))"
    and "query_truthy la \<Longrightarrow> query_truthy lo \<Longrightarrow>
         \<forall>ord\<in>set (take 20 (sort_key readyKey (filter isReadyUnassigned (orders s)))).
            findRestaurant s (o_restaurantId ord) \<noteq> None \<Longrightarrow>
           listAvailableOrders u la lo rad s
             = Inr (filter
                      (\<lambda>ord. case findRestaurant s (o_restaurantId ord) of
                                None \<Rightarrow> False
                              | Some rest \<Rightarrow>
                                  withinRadius (parseFloat la) (parseFloat lo)
                                    (parseRadius rad) rest)
                      (take 20 (sort_key readyKey (filter isReadyUnassigned (orders s)))))"
proof -
  assume "\<not> (query_truthy la \<and> query_truthy lo)"
  with assms show "listAvailableOrders u la lo rad s
             = Inr (take 20 (sort_key readyKey (filter isReadyUnassigned (orders s))))"
    by (auto simp: listAvailableOrders_def findReadyOrders_def Let_def)
next
  assume loc: "query_truthy la" "query_truthy lo"
    and all: "\<forall>ord\<in>set (take 20 (sort_key readyKey (filter isReadyUnassigned (orders s)))).
            findRestaurant s (o_restaurantId ord) \<noteq> None"
  from all have "\<not> list_ex (\<lambda>ord. findRestaurant s (o_restaurantId ord) = None)
                     (findReadyOrders s)"
    by (simp add: list_ex_iff findReadyOrders_def)
  with assms loc show "listAvailableOrders u la lo rad s
             = Inr (filter
                      (\<lambda>ord. case findRestaurant s (o_restaurantId ord) of
                                None \<Rightarrow> False
                              | Some rest \<Rightarrow>
                                  withinRadius (parseFloat la) (parseFloat lo)
                                    (parseRadius rad) rest)
                      (take 20 (sort_key readyKey (filter isReadyUnassigned (orders s)))))"
    by (simp add: listAvailableOrders_def Let_def keepOrder_def [abs_def] findReadyOrders_def)
qed

lemma listAvailableOrders_Inr:
  assumes "listAvailableOrders u la lo rad s = Inr res"
  shows "res = (if query_truthy la \<and> query_truthy lo
                then filter
                      (\<lambda>ord. case findRestaurant s (o_restaurantId ord) of
                                None \<Rightarrow> False
                              | Some rest \<Rightarrow>
                                  withinRadius (parseFloat la) (parseFloat lo)
                                    (parseRadius rad) rest)
                      (take 20 (sort_key readyKey (filter isReadyUnassigned (orders s))))
                else take 20 (sort_key readyKey (filter isReadyUnassigned (orders s))))"
  using assms
  by (auto simp: listAvailableOrders_def Let_def keepOrder_def [abs_def] findReadyOrders_def
      split: option.splits if_splits)

text \<open>
  Claim C10. \<open>listAvailableOrders\<close> first takes the twenty ready, unassigned orders
  that became ready first and only then filters them by distance: without a location
  the result is exactly those twenty, with a location it is exactly those of the twenty
  whose restaurant passes the distance filter, so the result never has more than twenty
  orders. When the rider supplies a location, more than twenty ready, unassigned orders
  exist and the twenty oldest are all out of the radius, the result is empty: every
  in-radius order that became ready later is omitted.
\<close>

theorem listAvailableOrders_cap:
  "(\<forall>rider. findRiderByUser s (u_id u) = Some rider \<and> rd_isAvailable rider
        \<and> \<not> (query_truthy la \<and> query_truthy lo)
      \<longrightarrow> listAvailableOrders u la lo rad s
            = Inr (take 20 (sort_key readyKey (filter isReadyUnassigned (orders s)))))
   \<and> (\<forall>rider. findRiderByUser s (u_id u) = Some rider \<and> rd_isAvailable rider
        \<and> query_truthy la \<and> query_truthy lo
        \<and> (\<forall>ord\<in>set (take 20 (sort_key readyKey (filter isReadyUnassigned (orders s)))).
              findRestaurant s (o_restaurantId ord) \<noteq> None)
      \<longrightarrow> listAvailableOrders u la lo rad s
            = Inr (filter
                     (\<lambda>ord. case findRestaurant s (o_restaurantId ord) of
                               None \<Rightarrow> False
                             | Some rest \<Rightarrow>
                                 withinRadius (parseFloat la) (parseFloat lo)
                                   (parseRadius rad) rest)
                     (take 20 (sort_key readyKey (filter isReadyUnassigned (orders s))))))
   \<and> (\<forall>res. listAvailableOrders u la lo rad s = Inr res
      \<longrightarrow> length res \<le> 20
          \<and> res = (if query_truthy la \<and> query_truthy lo
                   then filter
                          (\<lambda>ord. case findRestaurant s (o_restaurantId ord) of
                                    None \<Rightarrow> False
                                  | Some rest \<Rightarrow>
                                      withinRadius (parseFloat la) (parseFloat lo)
                                        (parseRadius rad) rest)
                          (take 20 (sort_key readyKey (filter isReadyUnassigned (orders s))))
                   else take 20 (sort_key readyKey (filter isReadyUnassigned (orders s)))))
   \<and> (\<forall>rider. findRiderByUser s (u_id u) = Some rider \<and> rd_isAvailable rider
        \<and> query_truthy la \<and> query_truthy lo
        \<and> 20 < length (filter isReadyUnassigned (orders s))
        \<and> (\<forall>ord\<in>set (take 20 (sort_key readyKey (filter isReadyUnassigned (orders s)))).
              \<exists>rest. findRestaurant s (o_restaurantId ord) = Some rest
                \<and> \<not> withinRadius (parseFloat la) (parseFloat lo) (parseRadius rad) rest)
      \<longrightarrow> listAvailableOrders u la lo rad s = Inr [])"
proof (intro conjI allI impI)
  fix rider
  assume "findRiderByUser s (u_id u) = Some rider \<and> rd_isAvailable rider
        \<and> \<not> (query_truthy la \<and> query_truthy lo)"
  then show "listAvailableOrders u la lo rad s
            = Inr (take 20 (sort_key readyKey (filter isReadyUnassigned (orders s))))"
    using listAvailableOrders_exact(1) by blast
next
  fix rider
  assume "findRiderByUser s (u_id u) = Some rider \<and> rd_isAvailable rider
        \<and> query_truthy la \<and> query_truthy lo
        \<and> (\<forall>ord\<in>set (take 20 (sort_key readyKey (filter isReadyUnassigned (orders s)))).
              findRestaurant s (o_restaurantId ord) \<noteq> None)"
  then show "listAvailableOrders u la lo rad s
            = Inr (filter
                     (\<lambda>ord. case findRestaurant s (o_restaurantId ord) of
                               None \<Rightarrow> False
                             | Some rest \<Rightarrow>
                                 withinRadius (parseFloat la) (parseFloat lo)
                                   (parseRadius rad) rest)
                     (take 20 (sort_key readyKey (filter isReadyUnassigned (orders s)))))"
    using listAvailableOrders_exact(2) by blast
next
  fix res
  assume r: "listAvailableOrders u la lo rad s = Inr res"
  from listAvailableOrders_filter [OF r] obtain keep where
    k: "res = filter keep (findReadyOrders s)" by blast
  have "length (filter keep (findReadyOrders s)) \<le> length (findReadyOrders s)"
    by (rule length_filter_le)
  also have "\<dots> \<le> 20" by (simp add: findReadyOrders_def)
  finally show "length res \<le> 20" using k by simp
  from r show "res = (if query_truthy la \<and> query_truthy lo
                   then filter
                          (\<lambda>ord. case findRestaurant s (o_restaurantId ord) of
                                    None \<Rightarrow> False
                                  | Some rest \<Rightarrow>
                                      withinRadius (parseFloat la) (parseFloat lo)
                                        (parseRadius rad) rest)
                          (take 20 (sort_key readyKey (filter isReadyUnassigned (orders s))))
                   else take 20 (sort_key readyKey (filter isReadyUnassigned (orders s))))"
    by (rule listAvailableOrders_Inr)
next
  fix rider
  assume a: "findRiderByUser s (u_id u) = Some rider \<and> rd_isAvailable rider
        \<and> query_truthy la \<and> query_truthy lo
        \<and> 20 < length (filter isReadyUnassigned (orders s))
        \<and> (\<forall>ord\<in>set (take 20 (sort_key readyKey (filter isReadyUnassigned (orders s)))).
              \<exists>rest. findRestaurant s (o_restaurantId ord) = Some rest
                \<and> \<not> withinRadius (parseFloat la) (parseFloat lo) (parseRadius rad) rest)"
  then have far: "\<forall>ord\<in>set (findReadyOrders s).
              \<exists>rest. findRestaurant s (o_restaurantId ord) = Some rest
                \<and> \<not> withinRadius (parseFloat la) (parseFloat lo) (parseRadius rad) rest"
    by (simp add: findReadyOrders_def)
  then have none: "\<not> list_ex (\<lambda>ord. findRestaurant s (o_restaurantId ord) = None)
                       (findReadyOrders s)"
    by (auto simp: list_ex_iff)
  from far have "filter (keepOrder s (parseFloat la) (parseFloat lo) (parseRadius rad))
                   (findReadyOrders s) = []"
    by (auto simp: filter_empty_conv keepOrder_def)
  with a none show "listAvailableOrders u la lo rad s = Inr []"
    by (simp add: listAvailableOrders_def Let_def)
qed

text \<open>
  The candidates of the two sample stores, and the filter for a rider at the north pole.
\<close>

lemma readyOrder_simps [simp]:
  "isReadyUnassigned (readyOrder n rid)"
  "readyKey (readyOrder n rid) = (0, int n)"
  "o_restaurantId (readyOrder n rid) = rid"
  by (simp_all add: readyOrder_def isReadyUnassigned_def readyKey_def sampleOrder_def)

lemma insort_key_last:
  "\<forall>y\<in>set xs. f y < f x \<Longrightarrow> insort_key f x xs = xs @ [x]"
  by (induction xs) auto

lemma crowdedStore_candidates:
  "take 20 (sort_key readyKey (filter isReadyUnassigned (orders crowdedStore)))
     = map (\<lambda>n. readyOrder n ''r2'') [0..<20]"
  "length (filter isReadyUnassigned (orders crowdedStore)) = 21"
proof -
  let ?far = "map (\<lambda>n. readyOrder n ''r2'') [0..<20]"
  have all: "filter isReadyUnassigned (orders crowdedStore) = readyOrder 20 ''r1'' # ?far"
    by (simp add: crowdedStore_def)
  have "sorted (map (\<lambda>n. (0::nat, int n)) [0..<20])"
    by (simp add: sorted_wrt_map sorted_wrt_iff_nth_less)
  then have "sort_key readyKey ?far = ?far"
    by (intro sort_key_id_if_sorted) (simp add: comp_def)
  moreover have "\<forall>y\<in>set ?far. readyKey y < readyKey (readyOrder 20 ''r1'')"
    by auto
  ultimately have "sort_key readyKey (readyOrder 20 ''r1'' # ?far) = ?far @ [readyOrder 20 ''r1'']"
    by (simp add: insort_key_last)
  with all show "take 20 (sort_key readyKey (filter isReadyUnassigned (orders crowdedStore)))
     = ?far"
    by simp
  from all show "length (filter isReadyUnassigned (orders crowdedStore)) = 21" by simp
qed

lemma mixedStore_candidates:
  "take 20 (sort_key readyKey (filter isReadyUnassigned (orders mixedStore)))
     = [readyOrder 0 ''r1'', readyOrder 1 ''r2'', readyOrder 2 ''r1'']"
  by (simp add: mixedStore_def isReadyUnassigned_def readyOrder_def readyKey_def sampleOrder_def)

lemma sample_restaurants:
  "findRestaurant crowdedStore ''r1'' = Some sampleRestaurant"
  "findRestaurant crowdedStore ''r2'' = Some farRestaurant"
  "findRestaurant mixedStore ''r1'' = Some sampleRestaurant"
  "findRestaurant mixedStore ''r2'' = Some farRestaurant"
  by (simp_all add: findRestaurant_def crowdedStore_def mixedStore_def farRestaurant_def
      sampleRestaurant_def)

lemma north_pole_radius:
  "withinRadius (Some 90) (Some 5) (Some 10) sampleRestaurant"
  "\<not> withinRadius (Some 90) (Some 5) (Some 10) farRestaurant"
  using half_turn_far
  by (simp_all add: withinRadius_def num_falsy_def farRestaurant_def sampleRestaurant_def
      distance_pole_to_pole distance_same_place)

text \<open>
  On the mixed store the rider at the north pole gets the two orders of the near
  restaurant, oldest first, and a rider without a location gets all three candidates. On
  the crowded store a rider without a location gets the twenty oldest orders, and the
  rider at the north pole gets none, although the twenty-first order is the first row of
  the table, ready, unassigned and at distance 0.
\<close>

theorem listAvailableOrders_cap_witness:
  "listAvailableOrders riderUser (Numeric 90) (Numeric 5) Missing mixedStore
     = Inr [readyOrder 0 ''r1'', readyOrder 2 ''r1'']
   \<and> listAvailableOrders riderUser Missing Missing Missing mixedStore
     = Inr [readyOrder 0 ''r1'', readyOrder 1 ''r2'', readyOrder 2 ''r1'']
   \<and> listAvailableOrders riderUser Missing Missing Missing crowdedStore
     = Inr (map (\<lambda>n. readyOrder n ''r2'') [0..<20])
   \<and> listAvailableOrders riderUser (Numeric 90) (Numeric 5) Missing crowdedStore = Inr []
   \<and> length (filter isReadyUnassigned (orders crowdedStore)) = 21
   \<and> hd (orders crowdedStore) = readyOrder 20 ''r1''
   \<and> isReadyUnassigned (readyOrder 20 ''r1'')
   \<and> keepOrder crowdedStore (parseFloat (Numeric 90)) (parseFloat (Numeric 5))
        (parseRadius Missing) (readyOrder 20 ''r1'')"
proof -
  have rider: "findRiderByUser mixedStore (u_id riderUser) = Some sampleRider"
              "findRiderByUser crowdedStore (u_id riderUser) = Some sampleRider"
              "rd_isAvailable sampleRider"
    by (simp_all add: crowdedStore_def mixedStore_def findRiderByUser_def sample_defs)
  have loc: "query_truthy (Numeric 90)" "query_truthy (Numeric 5)" "\<not> query_truthy Missing"
    by (simp_all add: query_truthy_def)
  have par: "parseFloat (Numeric 90) = Some 90" "parseFloat (Numeric 5) = Some 5"
            "parseRadius Missing = Some 10"
    by (simp_all add: parseFloat_def parseRadius_def)
  have joined: "\<forall>ord\<in>set (take 20 (sort_key readyKey
                    (filter isReadyUnassigned (orders mixedStore)))).
                  findRestaurant mixedStore (o_restaurantId ord) \<noteq> None"
    by (simp add: mixedStore_candidates sample_restaurants)
  have oldest: "\<forall>ord\<in>set (take 20 (sort_key readyKey
                    (filter isReadyUnassigned (orders crowdedStore)))).
           \<exists>rest. findRestaurant crowdedStore (o_restaurantId ord) = Some rest
             \<and> \<not> withinRadius (parseFloat (Numeric 90)) (parseFloat (Numeric 5))
                    (parseRadius Missing) rest"
    by (auto simp: crowdedStore_candidates sample_restaurants par north_pole_radius)
  have many: "20 < length (filter isReadyUnassigned (orders crowdedStore))"
    by (simp add: crowdedStore_candidates)
  have near: "keepOrder crowdedStore (parseFloat (Numeric 90)) (parseFloat (Numeric 5))
        (parseRadius Missing) (readyOrder 20 ''r1'')"
    by (simp add: keepOrder_def sample_restaurants par north_pole_radius)
  have first: "hd (orders crowdedStore) = readyOrder 20 ''r1''"
    by (simp add: crowdedStore_def)
  note mixedNear = listAvailableOrders_cap
         [of mixedStore riderUser "Numeric 90" "Numeric 5" Missing,
          THEN conjunct2, THEN conjunct1, rule_format, of sampleRider]
  note mixedAll = listAvailableOrders_cap
         [of mixedStore riderUser Missing Missing Missing,
          THEN conjunct1, rule_format, of sampleRider]
  note crowdedAll = listAvailableOrders_cap
         [of crowdedStore riderUser Missing Missing Missing,
          THEN conjunct1, rule_format, of sampleRider]
  note crowdedNear = listAvailableOrders_cap
         [of crowdedStore riderUser "Numeric 90" "Numeric 5" Missing,
          THEN conjunct2, THEN conjunct2, THEN conjunct2, rule_format, of sampleRider]
  have "listAvailableOrders riderUser (Numeric 90) (Numeric 5) Missing mixedStore
     = Inr (filter
              (\<lambda>ord. case findRestaurant mixedStore (o_restaurantId ord) of
                        None \<Rightarrow> False
                      | Some rest \<Rightarrow>
                          withinRadius (parseFloat (Numeric 90)) (parseFloat (Numeric 5))
                            (parseRadius Missing) rest)
              (take 20 (sort_key readyKey (filter isReadyUnassigned (orders mixedStore)))))"
    using rider loc joined by (intro mixedNear conjI)
  then have 1: "listAvailableOrders riderUser (Numeric 90) (Numeric 5) Missing mixedStore
     = Inr [readyOrder 0 ''r1'', readyOrder 2 ''r1'']"
    by (simp add: mixedStore_candidates sample_restaurants par north_pole_radius)
  have "listAvailableOrders riderUser Missing Missing Missing mixedStore
     = Inr (take 20 (sort_key readyKey (filter isReadyUnassigned (orders mixedStore))))"
    using rider loc by (intro mixedAll conjI) simp_all
  then have 2: "listAvailableOrders riderUser Missing Missing Missing mixedStore
     = Inr [readyOrder 0 ''r1'', readyOrder 1 ''r2'', readyOrder 2 ''r1'']"
    by (simp only: mixedStore_candidates)
  have "listAvailableOrders riderUser Missing Missing Missing crowdedStore
     = Inr (take 20 (sort_key readyKey (filter isReadyUnassigned (orders crowdedStore))))"
    using rider loc by (intro crowdedAll conjI) simp_all
  then have 3: "listAvailableOrders riderUser Missing Missing Missing crowdedStore
     = Inr (map (\<lambda>n. readyOrder n ''r2'') [0..<20])"
    by (simp only: crowdedStore_candidates)
  have 4: "listAvailableOrders riderUser (Numeric 90) (Numeric 5) Missing crowdedStore = Inr []"
    using rider loc many oldest by (intro crowdedNear conjI)
  have len: "length (filter isReadyUnassigned (orders crowdedStore)) = 21"
    by (rule crowdedStore_candidates)
  have rdy: "isReadyUnassigned (readyOrder 20 ''r1'')" by simp
  from 1 2 3 4 len first rdy near show ?thesis by (intro conjI)
qed

end
